theory Spec2Isabelle
  imports Complex_Main "HOL-Library.Word" "HOL-Library.Multiset" "HOL-Library.Finite_Map"
begin

section \<open>Go float64 values\<close>

text \<open>
  The topology code computes on Go \<open>float64\<close> values.  A value is a finite number, one
  of the two infinities, or NaN.  Finite values are carried as exact reals: rounding,
  overflow of a finite result to an infinity and the sign of zero are not modelled
  (a zero divisor counts as \<open>+0\<close>, which is what \<open>1.0 + x\<close> yields when it cancels).
  The special values follow IEEE 754 as Go implements it: NaN is absorbing, comparisons
  with NaN are false, \<open>Inf - Inf\<close>, \<open>0 * Inf\<close>, \<open>0 / 0\<close> and \<open>Inf / Inf\<close> are NaN.
\<close>

datatype float64 = Fin real | PInf | NInf | NaN

fun fneg :: "float64 \<Rightarrow> float64" where
  "fneg (Fin a) = Fin (- a)"
| "fneg PInf = NInf"
| "fneg NInf = PInf"
| "fneg NaN = NaN"

fun fadd :: "float64 \<Rightarrow> float64 \<Rightarrow> float64" where
  "fadd NaN y = NaN"
| "fadd x NaN = NaN"
| "fadd (Fin a) (Fin b) = Fin (a + b)"
| "fadd PInf NInf = NaN"
| "fadd NInf PInf = NaN"
| "fadd PInf y = PInf"
| "fadd NInf y = NInf"
| "fadd x PInf = PInf"
| "fadd x NInf = NInf"

definition fsub :: "float64 \<Rightarrow> float64 \<Rightarrow> float64" where
  "fsub x y = fadd x (fneg y)"

text \<open>The sign of a value: \<open>1\<close>, \<open>-1\<close>, or \<open>0\<close> for zero (and for NaN).\<close>

fun fsgn :: "float64 \<Rightarrow> int" where
  "fsgn (Fin a) = (if 0 < a then 1 else if a < 0 then - 1 else 0)"
| "fsgn PInf = 1"
| "fsgn NInf = - 1"
| "fsgn NaN = 0"

definition inf_of_sign :: "int \<Rightarrow> float64" where
  "inf_of_sign s = (if 0 < s then PInf else if s < 0 then NInf else NaN)"

fun fmul :: "float64 \<Rightarrow> float64 \<Rightarrow> float64" where
  "fmul NaN y = NaN"
| "fmul x NaN = NaN"
| "fmul (Fin a) (Fin b) = Fin (a * b)"
| "fmul x y = inf_of_sign (fsgn x * fsgn y)"

fun fdiv :: "float64 \<Rightarrow> float64 \<Rightarrow> float64" where
  "fdiv NaN y = NaN"
| "fdiv x NaN = NaN"
| "fdiv (Fin a) (Fin b) = (if b = 0 then inf_of_sign (fsgn (Fin a)) else Fin (a / b))"
| "fdiv (Fin a) y = Fin 0"
| "fdiv x (Fin b) = inf_of_sign (fsgn x * (if b < 0 then - 1 else 1))"
| "fdiv x y = NaN"

text \<open>Go's comparison operators on \<open>float64\<close>.\<close>

fun flt :: "float64 \<Rightarrow> float64 \<Rightarrow> bool" where
  "flt NaN y = False"
| "flt x NaN = False"
| "flt (Fin a) (Fin b) = (a < b)"
| "flt PInf y = False"
| "flt x PInf = True"
| "flt NInf y = (y \<noteq> NInf)"
| "flt x NInf = False"

definition fgt :: "float64 \<Rightarrow> float64 \<Rightarrow> bool" where
  "fgt x y = flt y x"

definition fle :: "float64 \<Rightarrow> float64 \<Rightarrow> bool" where
  "fle x y = (x \<noteq> NaN \<and> y \<noteq> NaN \<and> \<not> flt y x)"

text \<open>
  \<open>math.Min\<close> of the Go standard library: negative infinity wins, then NaN, then the
  smaller argument.
\<close>

definition math_Min :: "float64 \<Rightarrow> float64 \<Rightarrow> float64" where
  "math_Min x y =
     (if x = NInf \<or> y = NInf then NInf
      else if x = NaN \<or> y = NaN then NaN
      else if flt x y then x else y)"

definition float64_of_int :: "int \<Rightarrow> float64" where
  "float64_of_int i = Fin (real_of_int i)"

section \<open>Topology manager: connection quality\<close>

text \<open>
  \<open>time.Duration\<close> is a count of nanoseconds and \<open>time.Time\<close> an instant; both are
  integers here.  The code below only converts and compares them.
\<close>

type_synonym Duration = int
type_synonym Time = int

definition time_Millisecond :: Duration where
  "time_Millisecond = 1000000"

definition time_Second :: Duration where
  "time_Second = 1000000000"

record ConnectionQuality =
  Latency :: Duration
  Bandwidth :: float64
  PacketLoss :: float64
  Jitter :: Duration
  LastUpdate :: Time

definition calculateQualityScore :: "ConnectionQuality \<Rightarrow> float64" where
  "calculateQualityScore quality =
     (let latencyScore =
            fdiv (Fin 1) (fadd (Fin 1)
              (fdiv (float64_of_int (Latency quality)) (float64_of_int time_Second)));
          bandwidthScore = math_Min (fdiv (Bandwidth quality) (Fin 100)) (Fin 1);
          packetLossScore =
            fsub (Fin 1) (math_Min (fdiv (PacketLoss quality) (Fin 100)) (Fin 1));
          jitterScore =
            fdiv (Fin 1) (fadd (Fin 1)
              (fdiv (float64_of_int (Jitter quality)) (float64_of_int time_Second)));
          totalScore =
            fadd (fadd (fadd (fmul latencyScore (Fin 0.3)) (fmul bandwidthScore (Fin 0.3)))
                       (fmul packetLossScore (Fin 0.2)))
                 (fmul jitterScore (Fin 0.2))
      in math_Min totalScore (Fin 1))"


subsection \<open>Range of the quality score\<close>

lemma fle_Fin [simp]: "fle (Fin a) (Fin b) = (a \<le> b)"
  by (auto simp: fle_def)

lemma inverse_score:
  assumes "0 \<le> (l::int)"
  shows "\<exists>r. fdiv (Fin 1) (fadd (Fin 1) (fdiv (float64_of_int l) (float64_of_int time_Second)))
           = Fin r \<and> 0 < r \<and> r \<le> 1"
proof -
  let ?d = "1 + real_of_int l / 1000000000"
  have d: "1 \<le> ?d" using assms by simp
  have "fdiv (Fin 1) (fadd (Fin 1) (fdiv (float64_of_int l) (float64_of_int time_Second)))
          = Fin (1 / ?d)"
    using d by (simp add: float64_of_int_def time_Second_def)
  moreover have "0 < 1 / ?d" "1 / ?d \<le> 1" using d by simp_all
  ultimately show ?thesis by blast
qed

lemma bandwidth_score:
  assumes "fle (Fin 0) b"
  shows "\<exists>r. math_Min (fdiv b (Fin 100)) (Fin 1) = Fin r \<and> 0 \<le> r \<and> r \<le> 1"
proof (cases b)
  case (Fin x)
  with assms have x: "0 \<le> x" by simp
  have "math_Min (fdiv b (Fin 100)) (Fin 1) = Fin (if x / 100 < 1 then x / 100 else 1)"
    using Fin by (simp add: math_Min_def)
  moreover have "0 \<le> (if x / 100 < 1 then x / 100 else 1)"
    "(if x / 100 < 1 then x / 100 else 1) \<le> 1"
    using x by simp_all
  ultimately show ?thesis by blast
qed (use assms in \<open>auto simp: math_Min_def fle_def inf_of_sign_def\<close>)

lemma packet_loss_score:
  assumes "p \<noteq> NaN"
  shows "(\<exists>r. fsub (Fin 1) (math_Min (fdiv p (Fin 100)) (Fin 1)) = Fin r \<and> 0 \<le> r)
         \<or> fsub (Fin 1) (math_Min (fdiv p (Fin 100)) (Fin 1)) = PInf"
proof (cases p)
  case (Fin x)
  have "fsub (Fin 1) (math_Min (fdiv p (Fin 100)) (Fin 1))
          = Fin (1 - (if x / 100 < 1 then x / 100 else 1))"
    using Fin by (simp add: math_Min_def fsub_def)
  moreover have "0 \<le> 1 - (if x / 100 < 1 then x / 100 else 1)" by simp
  ultimately show ?thesis by blast
qed (use assms in \<open>auto simp: math_Min_def inf_of_sign_def fsub_def\<close>)

text \<open>
  What the code does guarantee.  The final \<open>math.Min(totalScore, 1.0)\<close> keeps every
  score that is not NaN at or below \<open>1\<close>.  For a latency, a jitter and a bandwidth that
  are not negative and a packet loss that is not NaN, every term of the sum is
  non-negative and the score lies in \<open>[0, 1]\<close>.
\<close>

lemma calculateQualityScore_upper:
  assumes "calculateQualityScore q \<noteq> NaN"
  shows "fle (calculateQualityScore q) (Fin 1)"
proof -
  have "math_Min x (Fin 1) \<noteq> NaN \<Longrightarrow> fle (math_Min x (Fin 1)) (Fin 1)" for x
    by (cases x) (auto simp: math_Min_def fle_def)
  then show ?thesis using assms by (simp add: calculateQualityScore_def Let_def)
qed

lemma calculateQualityScore_range:
  assumes "0 \<le> Latency q" and "0 \<le> Jitter q"
    and "fle (Fin 0) (Bandwidth q)" and "PacketLoss q \<noteq> NaN"
  shows "fle (Fin 0) (calculateQualityScore q) \<and> fle (calculateQualityScore q) (Fin 1)"
proof -
  obtain a where a:
    "fdiv (Fin 1) (fadd (Fin 1) (fdiv (float64_of_int (Latency q)) (float64_of_int time_Second)))
       = Fin a" "0 < a" "a \<le> 1"
    using inverse_score[OF assms(1)] by blast
  obtain j where j:
    "fdiv (Fin 1) (fadd (Fin 1) (fdiv (float64_of_int (Jitter q)) (float64_of_int time_Second)))
       = Fin j" "0 < j" "j \<le> 1"
    using inverse_score[OF assms(2)] by blast
  obtain b where b: "math_Min (fdiv (Bandwidth q) (Fin 100)) (Fin 1) = Fin b" "0 \<le> b" "b \<le> 1"
    using bandwidth_score[OF assms(3)] by blast
  from packet_loss_score[OF assms(4)] show ?thesis
  proof
    assume "\<exists>r. fsub (Fin 1) (math_Min (fdiv (PacketLoss q) (Fin 100)) (Fin 1)) = Fin r \<and> 0 \<le> r"
    then obtain p where
      p: "fsub (Fin 1) (math_Min (fdiv (PacketLoss q) (Fin 100)) (Fin 1)) = Fin p" "0 \<le> p"
      by blast
    show ?thesis using a j b p
      by (simp add: calculateQualityScore_def math_Min_def)
  next
    assume p: "fsub (Fin 1) (math_Min (fdiv (PacketLoss q) (Fin 100)) (Fin 1)) = PInf"
    show ?thesis using a j b p
      by (simp add: calculateQualityScore_def math_Min_def inf_of_sign_def fle_def)
  qed
qed

lemma calculateQualityScore_range_example:
  "fle (Fin 0) (calculateQualityScore
      \<lparr>Latency = 100000000, Bandwidth = Fin 10, PacketLoss = Fin 1, Jitter = 5000000,
       LastUpdate = 0\<rparr>)
   \<and> fle (calculateQualityScore
      \<lparr>Latency = 100000000, Bandwidth = Fin 10, PacketLoss = Fin 1, Jitter = 5000000,
       LastUpdate = 0\<rparr>) (Fin 1)"
  by (rule calculateQualityScore_range) simp_all

text \<open>
  C3: for every \<open>ConnectionQuality\<close> input (any latency, bandwidth, packet loss and
  jitter) the quality score lies in \<open>[0, 1]\<close>.  The function is documented as
  computing a normalized score from metrics brought to the 0-1 scale, but it bounds
  the bandwidth term and the total from above only.  At a bandwidth of \<open>-1000\<close> Mbps
  with zero latency, loss and jitter the code returns
  \<open>0.3 - 3 + 0.2 + 0.2 = -2.3\<close>, which is below \<open>0\<close>.
\<close>

theorem calculateQualityScore_negative_bandwidth:
  "calculateQualityScore
     \<lparr>Latency = 0, Bandwidth = Fin (- 1000), PacketLoss = Fin 0, Jitter = 0,
      LastUpdate = 0\<rparr> = Fin (- 2.3)
   \<and> \<not> fle (Fin 0) (calculateQualityScore
          \<lparr>Latency = 0, Bandwidth = Fin (- 1000), PacketLoss = Fin 0, Jitter = 0,
           LastUpdate = 0\<rparr>)"
  by (simp add: calculateQualityScore_def float64_of_int_def time_Second_def math_Min_def
      fsub_def)


section \<open>Topology manager: peers\<close>

text \<open>
  \<open>Manager.peers\<close> is a \<open>map[string]*PeerInfo\<close>: the map holds pointers, and
  \<open>GetPeerInfo\<close> hands a pointer to its caller.  The \<open>PeerInfo\<close> objects therefore
  live in an explicit store; an address below \<open>fresh\<close> is allocated, and allocation
  takes the address \<open>fresh\<close>.  The manager's mutex and its unused \<open>qualityUpdate\<close>
  callback are left out.
\<close>

record PeerInfo =
  ID :: string
  Address :: string
  Quality :: ConnectionQuality
  LastSeen :: Time
  Connected :: bool
  Reputation :: float64
  Load :: int

record Peer =
  peer_ID :: string
  peer_Address :: string
  peer_Version :: string
  peer_LastSeen :: Time

type_synonym addr = nat

record store =
  cells :: "addr \<Rightarrow> PeerInfo"
  fresh :: addr

record Manager =
  maxPeers :: int
  meshThreshold :: int
  peers :: "string \<rightharpoonup> addr"

datatype panic = MakesliceCapOutOfRange | NilPointerDereference

definition zero_ConnectionQuality :: ConnectionQuality where
  "zero_ConnectionQuality =
     \<lparr>Latency = 0, Bandwidth = Fin 0, PacketLoss = Fin 0, Jitter = 0, LastUpdate = 0\<rparr>"

definition zero_PeerInfo :: PeerInfo where
  "zero_PeerInfo =
     \<lparr>ID = [], Address = [], Quality = zero_ConnectionQuality, LastSeen = 0,
      Connected = False, Reputation = Fin 0, Load = 0\<rparr>"

definition empty_store :: store where
  "empty_store = \<lparr>cells = (\<lambda>a. zero_PeerInfo), fresh = 0\<rparr>"

definition new_PeerInfo :: "store \<Rightarrow> PeerInfo \<Rightarrow> addr \<times> store" where
  "new_PeerInfo h v = (fresh h, h\<lparr>cells := (cells h)(fresh h := v), fresh := Suc (fresh h)\<rparr>)"

definition NewManager :: "int \<Rightarrow> Manager" where
  "NewManager mp = \<lparr>maxPeers = mp, meshThreshold = 10, peers = Map.empty\<rparr>"

text \<open>
  \<open>AddPeer\<close> reads the clock twice (\<open>now1\<close> for \<open>LastSeen\<close>, \<open>now2\<close> for
  \<open>LastUpdate\<close>), allocates a new \<open>PeerInfo\<close>, overwrites its quality with the
  defaults and stores the pointer under the peer's id.
\<close>

definition AddPeer :: "Manager \<Rightarrow> store \<Rightarrow> Peer \<Rightarrow> Time \<Rightarrow> Time \<Rightarrow> Manager \<times> store" where
  "AddPeer t h peer now1 now2 =
     (let (info, h1) = new_PeerInfo h
            \<lparr>ID = peer_ID peer, Address = peer_Address peer,
             Quality = zero_ConnectionQuality, LastSeen = now1, Connected = True,
             Reputation = Fin 0, Load = 0\<rparr>;
          h2 = h1\<lparr>cells := (cells h1)(info := (cells h1 info)
                 \<lparr>Quality :=
                    \<lparr>Latency = time_Second, Bandwidth = Fin 1, PacketLoss = Fin 0,
                     Jitter = time_Millisecond * 10, LastUpdate = now2\<rparr>\<rparr>)\<rparr>
      in (t\<lparr>peers := (peers t)(peer_ID peer \<mapsto> info)\<rparr>, h2))"

definition RemovePeer :: "Manager \<Rightarrow> string \<Rightarrow> Manager" where
  "RemovePeer t peerID = t\<lparr>peers := (peers t)(peerID := None)\<rparr>"

definition UpdatePeerQuality ::
  "Manager \<Rightarrow> store \<Rightarrow> string \<Rightarrow> ConnectionQuality \<Rightarrow> Time \<Rightarrow> store" where
  "UpdatePeerQuality t h peerID quality now =
     (case peers t peerID of
        Some peer \<Rightarrow>
          h\<lparr>cells := (cells h)(peer := (cells h peer)\<lparr>Quality := quality, LastSeen := now\<rparr>)\<rparr>
      | None \<Rightarrow> h)"

definition UpdatePeerReputation :: "Manager \<Rightarrow> store \<Rightarrow> string \<Rightarrow> float64 \<Rightarrow> store" where
  "UpdatePeerReputation t h peerID reputation =
     (case peers t peerID of
        Some peer \<Rightarrow> h\<lparr>cells := (cells h)(peer := (cells h peer)\<lparr>Reputation := reputation\<rparr>)\<rparr>
      | None \<Rightarrow> h)"

text \<open>
  \<open>GetPeerInfo\<close> copies the stored object into a newly allocated one (\<open>info := *peer\<close>)
  and returns the address of the copy, or \<open>nil, false\<close> for an unknown id.
\<close>

definition GetPeerInfo :: "Manager \<Rightarrow> store \<Rightarrow> string \<Rightarrow> addr option \<times> store" where
  "GetPeerInfo t h peerID =
     (case peers t peerID of
        None \<Rightarrow> (None, h)
      | Some peer \<Rightarrow> (let (info, h') = new_PeerInfo h (cells h peer) in (Some info, h')))"

text \<open>What the manager stores for an id: the object its map entry points to.\<close>

definition peerInfo_of :: "Manager \<Rightarrow> store \<Rightarrow> string \<Rightarrow> PeerInfo option" where
  "peerInfo_of t h peerID = map_option (cells h) (peers t peerID)"

subsection \<open>Ranking\<close>

text \<open>
  The score computed in the loop of \<open>GetBestPeers\<close>:
  \<open>qualityScore*0.7 + info.Reputation*0.3\<close>.
\<close>

definition bestPeerScore :: "PeerInfo \<Rightarrow> float64" where
  "bestPeerScore info =
     (let qualityScore = calculateQualityScore (Quality info)
      in fadd (fmul qualityScore (Fin 0.7)) (fmul (Reputation info) (Fin 0.3)))"

record peerScore =
  ps_id :: string
  ps_score :: float64

text \<open>
  \<open>sort.Slice\<close> belongs to the Go standard library.  Its contract: the result is a
  rearrangement of the slice, and it is ordered by \<open>lt\<close> (no later element is less
  than an earlier one) provided \<open>lt\<close> is a strict weak ordering of the elements; the
  sort is not stable.  \<open>GetBestPeers\<close> takes the sorting function as a parameter, and
  the theorems about it assume the contract only.
\<close>

definition strict_weak_on :: "'a set \<Rightarrow> ('a \<Rightarrow> 'a \<Rightarrow> bool) \<Rightarrow> bool" where
  "strict_weak_on A lt =
     ((\<forall>x\<in>A. \<not> lt x x)
      \<and> (\<forall>x\<in>A. \<forall>y\<in>A. \<forall>z\<in>A. lt x y \<and> lt y z \<longrightarrow> lt x z)
      \<and> (\<forall>x\<in>A. \<forall>y\<in>A. \<forall>z\<in>A.
            \<not> lt x y \<and> \<not> lt y x \<and> \<not> lt y z \<and> \<not> lt z y
            \<longrightarrow> \<not> lt x z \<and> \<not> lt z x))"

definition sort_contract ::
  "(('a \<Rightarrow> 'a \<Rightarrow> bool) \<Rightarrow> 'a list \<Rightarrow> 'a list) \<Rightarrow> bool" where
  "sort_contract srt =
     (\<forall>lt xs. mset (srt lt xs) = mset xs
        \<and> (strict_weak_on (set xs) lt
             \<longrightarrow> sorted_wrt (\<lambda>a b. \<not> lt b a) (srt lt xs)))"

text \<open>
  For slices of at most twelve elements the Go runtime sorts by insertion
  (\<open>insertionSortLessFunc\<close>): each element in turn is swapped towards the front while it
  is less than its left neighbour.  \<open>sift\<close> works on the reversed prefix.
\<close>

fun sift :: "('a \<Rightarrow> 'a \<Rightarrow> bool) \<Rightarrow> 'a \<Rightarrow> 'a list \<Rightarrow> 'a list" where
  "sift lt x [] = [x]"
| "sift lt x (y # ys) = (if lt x y then y # sift lt x ys else x # y # ys)"

definition sort_Slice :: "('a \<Rightarrow> 'a \<Rightarrow> bool) \<Rightarrow> 'a list \<Rightarrow> 'a list" where
  "sort_Slice lt xs = rev (foldl (\<lambda>acc x. sift lt x acc) [] xs)"

text \<open>
  The loop over \<open>t.peers\<close>.  Go leaves the iteration order of a map unspecified (the
  runtime randomises it), so the order in which \<open>range\<close> visits the keys is the
  argument \<open>order\<close>, a listing of the keys of the map.
\<close>

definition peerScores_of :: "string list \<Rightarrow> Manager \<Rightarrow> store \<Rightarrow> peerScore list" where
  "peerScores_of order t h =
     concat (map (\<lambda>pid. case peers t pid of
                          Some info \<Rightarrow> [\<lparr>ps_id = pid, ps_score = bestPeerScore (cells h info)\<rparr>]
                        | None \<Rightarrow> []) order)"

text \<open>
  \<open>make([]string, 0, n)\<close> panics (\<open>makeslice: cap out of range\<close>) for a negative
  \<open>n\<close> and for an \<open>n\<close> above the largest capacity the runtime grants a slice of
  strings, \<open>maxCap\<close>: its constant \<open>maxAlloc\<close> divided by the size of a string header,
  \<open>2^44\<close> on 64-bit Linux.  Running out of memory below that limit is not modelled.
  The final loop appends the ids of the first \<open>n\<close> entries, or of all entries if
  there are fewer.
\<close>

definition GetBestPeers ::
  "int \<Rightarrow> ((peerScore \<Rightarrow> peerScore \<Rightarrow> bool) \<Rightarrow> peerScore list \<Rightarrow> peerScore list)
     \<Rightarrow> string list \<Rightarrow> Manager \<Rightarrow> store \<Rightarrow> int \<Rightarrow> panic + string list" where
  "GetBestPeers maxCap srt order t h n =
     (let peerScores = srt (\<lambda>a b. fgt (ps_score a) (ps_score b)) (peerScores_of order t h)
      in if n < 0 \<or> maxCap < n then Inl MakesliceCapOutOfRange
         else Inr (map ps_id (take (nat n) peerScores)))"


subsection \<open>Insertion sort meets the contract of \<open>sort.Slice\<close>\<close>

lemma mset_sift: "mset (sift lt x ys) = add_mset x (mset ys)"
  by (induction ys) auto

lemma mset_foldl_sift: "mset (foldl (\<lambda>acc x. sift lt x acc) acc xs) = mset acc + mset xs"
  by (induction xs arbitrary: acc) (auto simp: mset_sift)

lemma mset_sort_Slice: "mset (sort_Slice lt xs) = mset xs"
  by (simp add: sort_Slice_def mset_foldl_sift)

lemma set_sift: "set (sift lt x ys) = insert x (set ys)"
  by (induction ys) auto

lemma strict_weak_asym: "strict_weak_on A lt \<Longrightarrow> x \<in> A \<Longrightarrow> y \<in> A \<Longrightarrow> lt x y \<Longrightarrow> \<not> lt y x"
  unfolding strict_weak_on_def by blast

lemma strict_weak_negtrans:
  assumes "strict_weak_on A lt" "x \<in> A" "y \<in> A" "z \<in> A" "\<not> lt x y" "\<not> lt y z"
  shows "\<not> lt x z"
  using assms unfolding strict_weak_on_def by meson

lemma sorted_sift:
  assumes sw: "strict_weak_on A lt"
  shows "x \<in> A \<Longrightarrow> set ys \<subseteq> A \<Longrightarrow> sorted_wrt (\<lambda>a b. \<not> lt a b) ys
         \<Longrightarrow> sorted_wrt (\<lambda>a b. \<not> lt a b) (sift lt x ys)"
proof (induction ys)
  case Nil
  then show ?case by simp
next
  case (Cons y ys)
  show ?case
  proof (cases "lt x y")
    case True
    then have "\<not> lt y x" using strict_weak_asym[OF sw] Cons.prems by auto
    then show ?thesis using True Cons by (auto simp: set_sift)
  next
    case False
    have "\<not> lt x z" if "z \<in> set ys" for z
      using strict_weak_negtrans[OF sw, of x y z] False Cons.prems that by auto
    then show ?thesis using False Cons.prems by auto
  qed
qed

lemma sorted_foldl_sift:
  assumes sw: "strict_weak_on A lt"
  shows "set xs \<subseteq> A \<Longrightarrow> set acc \<subseteq> A \<Longrightarrow> sorted_wrt (\<lambda>a b. \<not> lt a b) acc
         \<Longrightarrow> sorted_wrt (\<lambda>a b. \<not> lt a b) (foldl (\<lambda>acc x. sift lt x acc) acc xs)"
proof (induction xs arbitrary: acc)
  case Nil
  then show ?case by simp
next
  case (Cons x xs)
  have "sorted_wrt (\<lambda>a b. \<not> lt a b) (sift lt x acc)"
    using sorted_sift[OF sw] Cons.prems by auto
  moreover have "set (sift lt x acc) \<subseteq> A" using Cons.prems by (auto simp: set_sift)
  ultimately show ?case using Cons by simp
qed

lemma sort_Slice_contract: "sort_contract sort_Slice"
  unfolding sort_contract_def
proof (intro allI conjI impI)
  fix lt :: "'a \<Rightarrow> 'a \<Rightarrow> bool" and xs
  show "mset (sort_Slice lt xs) = mset xs" by (rule mset_sort_Slice)
  assume "strict_weak_on (set xs) lt"
  from sorted_foldl_sift[OF this, of xs "[]"]
  show "sorted_wrt (\<lambda>a b. \<not> lt b a) (sort_Slice lt xs)"
    by (simp add: sort_Slice_def sorted_wrt_rev)
qed

subsection \<open>The comparison of scores\<close>

lemma flt_irrefl: "\<not> flt x x"
  by (cases x) auto

lemma flt_trans: "flt x y \<Longrightarrow> flt y z \<Longrightarrow> flt x z"
  by (cases x; cases y; cases z) auto

lemma flt_total: "x \<noteq> NaN \<Longrightarrow> y \<noteq> NaN \<Longrightarrow> flt x y \<or> x = y \<or> flt y x"
  by (cases x; cases y) auto

lemma strict_weak_fgt:
  assumes "\<forall>x\<in>A. ps_score x \<noteq> NaN"
  shows "strict_weak_on A (\<lambda>a b. fgt (ps_score a) (ps_score b))"
  unfolding strict_weak_on_def fgt_def
proof (intro conjI ballI impI)
  fix x show "\<not> flt (ps_score x) (ps_score x)" by (rule flt_irrefl)
next
  fix x y z assume "flt (ps_score y) (ps_score x) \<and> flt (ps_score z) (ps_score y)"
  then show "flt (ps_score z) (ps_score x)" using flt_trans by blast
next
  fix x y z assume m: "x \<in> A" "y \<in> A" "z \<in> A"
    and h: "\<not> flt (ps_score y) (ps_score x) \<and> \<not> flt (ps_score x) (ps_score y) \<and>
       \<not> flt (ps_score z) (ps_score y) \<and> \<not> flt (ps_score y) (ps_score z)"
  have "ps_score x = ps_score y" "ps_score y = ps_score z"
    using flt_total[of "ps_score x" "ps_score y"] flt_total[of "ps_score y" "ps_score z"] m h assms
    by auto
  then show "\<not> flt (ps_score z) (ps_score x)" "\<not> flt (ps_score x) (ps_score z)"
    by (simp_all add: flt_irrefl)
qed

lemma peerScores_of_map:
  "set order \<subseteq> dom (peers t) \<Longrightarrow>
   peerScores_of order t h =
     map (\<lambda>pid. \<lparr>ps_id = pid, ps_score = bestPeerScore (cells h (the (peers t pid)))\<rparr>) order"
  by (induction order) (auto simp: peerScores_of_def)

lemma not_fgt_fle: "x \<noteq> NaN \<Longrightarrow> y \<noteq> NaN \<Longrightarrow> \<not> fgt y x \<Longrightarrow> fle y x"
  by (simp add: fle_def fgt_def)

subsection \<open>A manager with two peers\<close>

text \<open>
  The state built by the repository's test \<open>TestGetBestPeers\<close>: two peers are added
  and their quality is updated; the clock readings are \<open>1, 2, 3, 4\<close>.
\<close>

definition example_state :: "Manager \<times> store" where
  "example_state =
     (let (t1, h1) = AddPeer (NewManager 10) empty_store
            \<lparr>peer_ID = ''peer1'', peer_Address = ''127.0.0.1:8081'', peer_Version = [],
             peer_LastSeen = 0\<rparr> 1 1;
          (t2, h2) = AddPeer t1 h1
            \<lparr>peer_ID = ''peer2'', peer_Address = ''127.0.0.1:8082'', peer_Version = [],
             peer_LastSeen = 0\<rparr> 2 2;
          h3 = UpdatePeerQuality t2 h2 ''peer1''
            \<lparr>Latency = 50 * time_Millisecond, Bandwidth = Fin 20, PacketLoss = Fin 0.1,
             Jitter = 0, LastUpdate = 0\<rparr> 3;
          h4 = UpdatePeerQuality t2 h3 ''peer2''
            \<lparr>Latency = 200 * time_Millisecond, Bandwidth = Fin 5, PacketLoss = Fin 5,
             Jitter = 0, LastUpdate = 0\<rparr> 4
      in (t2, h4))"

lemma ex_t: "fst example_state = \<lparr>maxPeers = 10, meshThreshold = 10, peers = [''peer1'' \<mapsto> 0, ''peer2'' \<mapsto> 1]\<rparr>"
  by (simp add: example_state_def AddPeer_def NewManager_def new_PeerInfo_def empty_store_def Let_def)

lemma ex_info1: "peerInfo_of (fst example_state) (snd example_state) ''peer1'' = Some
    \<lparr>ID = ''peer1'', Address = ''127.0.0.1:8081'',
     Quality = \<lparr>Latency = 50000000, Bandwidth = Fin 20, PacketLoss = Fin 0.1, Jitter = 0, LastUpdate = 0\<rparr>,
     LastSeen = 3, Connected = True, Reputation = Fin 0, Load = 0\<rparr>"
  by (simp add: example_state_def AddPeer_def NewManager_def new_PeerInfo_def empty_store_def Let_def
       UpdatePeerQuality_def peerInfo_of_def time_Millisecond_def)

lemma ex_info2: "peerInfo_of (fst example_state) (snd example_state) ''peer2'' = Some
    \<lparr>ID = ''peer2'', Address = ''127.0.0.1:8082'',
     Quality = \<lparr>Latency = 200000000, Bandwidth = Fin 5, PacketLoss = Fin 5, Jitter = 0, LastUpdate = 0\<rparr>,
     LastSeen = 4, Connected = True, Reputation = Fin 0, Load = 0\<rparr>"
  by (simp add: example_state_def AddPeer_def NewManager_def new_PeerInfo_def empty_store_def Let_def
       UpdatePeerQuality_def peerInfo_of_def time_Millisecond_def)

lemma ex_other: "pid \<noteq> ''peer1'' \<Longrightarrow> pid \<noteq> ''peer2'' \<Longrightarrow> peerInfo_of (fst example_state) (snd example_state) pid = None"
  by (simp add: ex_t peerInfo_of_def)

lemma ex_nonan: "peerInfo_of (fst example_state) (snd example_state) pid = Some info \<Longrightarrow> bestPeerScore info \<noteq> NaN"
proof -
  assume a: "peerInfo_of (fst example_state) (snd example_state) pid = Some info"
  consider "pid = ''peer1''" | "pid = ''peer2''" | "pid \<noteq> ''peer1''" "pid \<noteq> ''peer2''" by blast
  then show ?thesis
  proof cases
    case 1
    with a ex_info1 have "info = \<lparr>ID = ''peer1'', Address = ''127.0.0.1:8081'',
     Quality = \<lparr>Latency = 50000000, Bandwidth = Fin 20, PacketLoss = Fin 0.1, Jitter = 0, LastUpdate = 0\<rparr>,
     LastSeen = 3, Connected = True, Reputation = Fin 0, Load = 0\<rparr>" by simp
    then show ?thesis
      by (simp add: bestPeerScore_def calculateQualityScore_def float64_of_int_def time_Second_def math_Min_def fsub_def)
  next
    case 2
    with a ex_info2 have "info = \<lparr>ID = ''peer2'', Address = ''127.0.0.1:8082'',
     Quality = \<lparr>Latency = 200000000, Bandwidth = Fin 5, PacketLoss = Fin 5, Jitter = 0, LastUpdate = 0\<rparr>,
     LastSeen = 4, Connected = True, Reputation = Fin 0, Load = 0\<rparr>" by simp
    then show ?thesis
      by (simp add: bestPeerScore_def calculateQualityScore_def float64_of_int_def time_Second_def math_Min_def fsub_def)
  next
    case 3
    with a ex_other show ?thesis by simp
  qed
qed

subsection \<open>Order and length of the result of \<open>GetBestPeers\<close>\<close>

text \<open>
  C1, as stated, ends with: ties in score are broken deterministically, the same peer
  set always yields the same output list.  The code has no tie-break: the entries are
  collected in the iteration order of the map, which Go leaves unspecified, and are
  sorted on the score alone.  Two peers just added have the same score; visited as
  \<open>a, b\<close> the best peer is \<open>a\<close>, visited as \<open>b, a\<close> it is \<open>b\<close>.
\<close>

theorem GetBestPeers_tie_counterexample:
  "case AddPeer (NewManager 10) empty_store
            \<lparr>peer_ID = ''a'', peer_Address = ''127.0.0.1:8081'', peer_Version = ''1.0.0'',
             peer_LastSeen = 0\<rparr> 0 0 of (t1, h1) \<Rightarrow>
    (case AddPeer t1 h1 \<lparr>peer_ID = ''b'', peer_Address = ''127.0.0.1:8082'', peer_Version = ''1.0.0'',
             peer_LastSeen = 0\<rparr> 0 0 of (t2, h2) \<Rightarrow>
       GetBestPeers (2 ^ 44) sort_Slice [''a'', ''b''] t2 h2 1 = Inr [''a'']
       \<and> GetBestPeers (2 ^ 44) sort_Slice [''b'', ''a''] t2 h2 1 = Inr [''b''])"
  by (simp add: AddPeer_def NewManager_def new_PeerInfo_def empty_store_def Let_def
       GetBestPeers_def peerScores_of_def sort_Slice_def fgt_def bestPeerScore_def flt_irrefl)

text \<open>
  C1, amended: for every set of known peers none of whose scores is NaN, every order
  in which the map is visited and every \<open>n \<ge> 0\<close> that is a capacity the runtime
  grants, \<open>GetBestPeers(n)\<close> returns a list
  of distinct known peer ids, of length \<open>min(n, number of known peers)\<close>, ordered
  non-increasing in the score \<open>0.7*qualityScore + 0.3*reputation\<close>, and no peer left
  out scores higher than a peer returned.  The order among peers of equal score is
  not determined.
\<close>

theorem GetBestPeers_sorted:
  assumes srt: "sort_contract srt"
    and dist: "distinct order" and keys: "set order = dom (peers t)"
    and n: "0 \<le> n" "n \<le> maxCap"
    and nonan: "\<forall>pid info. peerInfo_of t h pid = Some info \<longrightarrow> bestPeerScore info \<noteq> NaN"
  shows "\<exists>res. GetBestPeers maxCap srt order t h n = Inr res
           \<and> length res = min (nat n) (card (dom (peers t)))
           \<and> distinct res \<and> set res \<subseteq> dom (peers t)
           \<and> sorted_wrt (\<lambda>i j. \<exists>x y. peerInfo_of t h i = Some x \<and> peerInfo_of t h j = Some y
                                   \<and> fle (bestPeerScore y) (bestPeerScore x)) res
           \<and> (\<forall>i\<in>set res. \<forall>j\<in>dom (peers t) - set res.
                 \<exists>x y. peerInfo_of t h i = Some x \<and> peerInfo_of t h j = Some y
                        \<and> fle (bestPeerScore y) (bestPeerScore x))"
proof -
  let ?lt = "\<lambda>a b. fgt (ps_score a) (ps_score b)"
  let ?f = "\<lambda>pid. \<lparr>ps_id = pid, ps_score = bestPeerScore (cells h (the (peers t pid)))\<rparr>"
  let ?R = "\<lambda>i j. \<exists>x y. peerInfo_of t h i = Some x \<and> peerInfo_of t h j = Some y
                          \<and> fle (bestPeerScore y) (bestPeerScore x)"
  define ps where "ps = peerScores_of order t h"
  define ss where "ss = srt ?lt ps"
  have ps: "ps = map ?f order" unfolding ps_def using keys by (simp add: peerScores_of_map)
  have el: "ps_id a \<in> dom (peers t) \<and> peerInfo_of t h (ps_id a) = Some (cells h (the (peers t (ps_id a))))
            \<and> ps_score a = bestPeerScore (cells h (the (peers t (ps_id a)))) \<and> ps_score a \<noteq> NaN"
    if "a \<in> set ps" for a
  proof -
    from that obtain pid where pid: "pid \<in> set order" "a = ?f pid" unfolding ps by auto
    then obtain ad where ad: "peers t pid = Some ad" using keys by auto
    then have "peerInfo_of t h pid = Some (cells h ad)" by (simp add: peerInfo_of_def)
    with nonan have "bestPeerScore (cells h ad) \<noteq> NaN" by blast
    with pid ad show ?thesis by (auto simp: peerInfo_of_def)
  qed
  have ms: "mset ss = mset ps" unfolding ss_def using srt by (simp add: sort_contract_def)
  then have sets: "set ss = set ps" by (rule mset_eq_setD)
  have "strict_weak_on (set ps) ?lt" by (rule strict_weak_fgt) (use el in blast)
  then have sorted: "sorted_wrt (\<lambda>a b. \<not> ?lt b a) ss"
    unfolding ss_def using srt by (simp add: sort_contract_def)
  have sortedR: "sorted_wrt (\<lambda>a b. ?R (ps_id a) (ps_id b)) ss"
  proof (rule sorted_wrt_mono_rel[OF _ sorted])
    fix a b assume ab: "a \<in> set ss" "b \<in> set ss" "\<not> ?lt b a"
    then have ea: "a \<in> set ps" and eb: "b \<in> set ps" using sets by auto
    have "fle (ps_score b) (ps_score a)"
      using el[OF ea] el[OF eb] ab(3) by (intro not_fgt_fle) auto
    then show "?R (ps_id a) (ps_id b)"
      using el[OF ea] el[OF eb] by auto
  qed
  have ids: "mset (map ps_id ss) = mset order"
  proof -
    have "mset (map ps_id ss) = image_mset ps_id (mset ps)" using ms by simp
    also have "\<dots> = mset (map ps_id ps)" by simp
    also have "map ps_id ps = order" unfolding ps by (simp add: comp_def)
    finally show ?thesis .
  qed
  have dist_ids: "distinct (map ps_id ss)" using mset_eq_imp_distinct_iff[OF ids] dist by simp
  have set_ids: "set (map ps_id ss) = dom (peers t)" using mset_eq_setD[OF ids] keys by simp
  have len: "length ss = card (dom (peers t))"
    using mset_eq_length[OF ids] distinct_card[OF dist] keys by simp
  define res where "res = map ps_id (take (nat n) ss)"
  have r1: "GetBestPeers maxCap srt order t h n = Inr res"
    using n by (simp add: GetBestPeers_def res_def ss_def ps_def)
  have r2: "length res = min (nat n) (card (dom (peers t)))"
    by (simp add: res_def len min.commute)
  have res_take: "res = take (nat n) (map ps_id ss)" by (simp add: res_def take_map)
  have r3: "distinct res" unfolding res_take using dist_ids by (rule distinct_take)
  have r4: "set res \<subseteq> dom (peers t)"
  proof -
    have "set res \<subseteq> set (map ps_id ss)" unfolding res_take by (rule set_take_subset)
    then show ?thesis using set_ids by simp
  qed
  have sortedall: "sorted_wrt ?R (map ps_id ss)" using sortedR by (simp add: sorted_wrt_map)
  have split: "map ps_id ss = res @ drop (nat n) (map ps_id ss)" by (simp add: res_take)
  have sortedsplit: "sorted_wrt ?R (res @ drop (nat n) (map ps_id ss))"
    using sortedall split by simp
  have r5: "sorted_wrt ?R res" using sortedsplit unfolding sorted_wrt_append by blast
  have r6: "?R i j" if "i \<in> set res" "j \<in> dom (peers t) - set res" for i j
  proof -
    have "set (map ps_id ss) = set res \<union> set (drop (nat n) (map ps_id ss))"
      using split by (metis set_append)
    then have "j \<in> set (drop (nat n) (map ps_id ss))"
      using that set_ids by auto
    then show ?thesis using sortedsplit that(1) unfolding sorted_wrt_append by blast
  qed
  show ?thesis using r1 r2 r3 r4 r5 r6 by blast
qed

theorem GetBestPeers_sorted_witness:
  "\<exists>res. GetBestPeers (2 ^ 44) sort_Slice [''peer2'', ''peer1''] (fst example_state) (snd example_state) 2 = Inr res
           \<and> length res = min (nat 2) (card (dom (peers (fst example_state))))
           \<and> distinct res \<and> set res \<subseteq> dom (peers (fst example_state))
           \<and> sorted_wrt (\<lambda>i j. \<exists>x y. peerInfo_of (fst example_state) (snd example_state) i = Some x \<and> peerInfo_of (fst example_state) (snd example_state) j = Some y
                                   \<and> fle (bestPeerScore y) (bestPeerScore x)) res
           \<and> (\<forall>i\<in>set res. \<forall>j\<in>dom (peers (fst example_state)) - set res.
                 \<exists>x y. peerInfo_of (fst example_state) (snd example_state) i = Some x \<and> peerInfo_of (fst example_state) (snd example_state) j = Some y
                        \<and> fle (bestPeerScore y) (bestPeerScore x))"
proof (rule GetBestPeers_sorted)
  show "sort_contract sort_Slice" by (rule sort_Slice_contract)
  show "distinct [''peer2'', ''peer1'']" by simp
  show "set [''peer2'', ''peer1''] = dom (peers (fst example_state))" by (auto simp: ex_t)
  show "(0::int) \<le> 2" by simp
  show "(2::int) \<le> 2 ^ 44" by simp
  show "\<forall>pid info. peerInfo_of (fst example_state) (snd example_state) pid = Some info \<longrightarrow> bestPeerScore info \<noteq> NaN"
    using ex_nonan by blast
qed


section \<open>Topology manager: stored objects and copies\<close>

text \<open>
  In every state the program reaches, the objects the manager's map points to have
  been allocated: \<open>NewManager\<close> starts with no entry, and every operation keeps the
  property.
\<close>

definition wf_store :: "Manager \<Rightarrow> store \<Rightarrow> bool" where
  "wf_store t h = (\<forall>pid a. peers t pid = Some a \<longrightarrow> a < fresh h)"

lemma wf_store_NewManager: "wf_store (NewManager mp) h"
  by (simp add: wf_store_def NewManager_def)

lemma wf_store_AddPeer:
  "wf_store t h \<Longrightarrow> AddPeer t h p now1 now2 = (t', h') \<Longrightarrow> wf_store t' h'"
  by (fastforce simp: wf_store_def AddPeer_def new_PeerInfo_def Let_def less_Suc_eq
      split: if_splits)

lemma wf_store_RemovePeer: "wf_store t h \<Longrightarrow> wf_store (RemovePeer t pid) h"
  by (auto simp: wf_store_def RemovePeer_def split: if_splits)

lemma wf_store_GetPeerInfo:
  "wf_store t h \<Longrightarrow> GetPeerInfo t h pid = (r, h') \<Longrightarrow> wf_store t h'"
  by (fastforce simp: wf_store_def GetPeerInfo_def new_PeerInfo_def less_Suc_eq
      split: option.splits)

lemma wf_store_UpdatePeerReputation:
  "wf_store t h \<Longrightarrow> wf_store t (UpdatePeerReputation t h pid r)"
  by (auto simp: wf_store_def UpdatePeerReputation_def split: option.splits)

lemma wf_store_UpdatePeerQuality:
  "wf_store t h \<Longrightarrow> wf_store t (UpdatePeerQuality t h pid q now)"
  by (auto simp: wf_store_def UpdatePeerQuality_def split: option.splits)

lemma wf_example: "wf_store (fst example_state) (snd example_state)"
  by (simp add: example_state_def AddPeer_def NewManager_def new_PeerInfo_def empty_store_def Let_def
       UpdatePeerQuality_def wf_store_def)

text \<open>
  C9: calling \<open>AddPeer\<close> with an id that is already present replaces the stored entry
  wholesale.  The entry then points to a newly allocated object with reputation
  \<open>0.0\<close>, \<open>Connected = true\<close>, \<open>Load = 0\<close> and the default quality (latency 1s,
  bandwidth 1.0 Mbps, packet loss 0, jitter 10ms); nothing of the previous object, in
  particular its reputation and quality, is carried over, and the set of known ids is
  unchanged.
\<close>

theorem AddPeer_replaces_entry:
  assumes "peers t (peer_ID p) = Some old"
  shows "case AddPeer t h p now1 now2 of (t', h') \<Rightarrow>
           peerInfo_of t' h' (peer_ID p) = Some
             \<lparr>ID = peer_ID p, Address = peer_Address p,
              Quality = \<lparr>Latency = time_Second, Bandwidth = Fin 1, PacketLoss = Fin 0,
                         Jitter = time_Millisecond * 10, LastUpdate = now2\<rparr>,
              LastSeen = now1, Connected = True, Reputation = Fin 0, Load = 0\<rparr>
           \<and> dom (peers t') = dom (peers t)
           \<and> peers t' (peer_ID p) = Some (fresh h)"
  using assms by (auto simp: AddPeer_def new_PeerInfo_def Let_def peerInfo_of_def)

theorem AddPeer_replaces_entry_witness:
  "case AddPeer (fst example_state)
          (UpdatePeerReputation (fst example_state) (snd example_state) ''peer1'' (Fin 0.8))
          \<lparr>peer_ID = ''peer1'', peer_Address = ''10.0.0.7:9000'', peer_Version = ''1.0.0'',
           peer_LastSeen = 0\<rparr> 5 6 of (t', h') \<Rightarrow>
     peerInfo_of t' h'
       (peer_ID \<lparr>peer_ID = ''peer1'', peer_Address = ''10.0.0.7:9000'',
                 peer_Version = ''1.0.0'', peer_LastSeen = 0\<rparr>)
     = Some
         \<lparr>ID = peer_ID \<lparr>peer_ID = ''peer1'', peer_Address = ''10.0.0.7:9000'',
                          peer_Version = ''1.0.0'', peer_LastSeen = 0\<rparr>,
          Address = peer_Address \<lparr>peer_ID = ''peer1'', peer_Address = ''10.0.0.7:9000'',
                                   peer_Version = ''1.0.0'', peer_LastSeen = 0\<rparr>,
          Quality = \<lparr>Latency = time_Second, Bandwidth = Fin 1, PacketLoss = Fin 0,
                     Jitter = time_Millisecond * 10, LastUpdate = 6\<rparr>,
          LastSeen = 5, Connected = True, Reputation = Fin 0, Load = 0\<rparr>
     \<and> dom (peers t') = dom (peers (fst example_state))
     \<and> peers t'
         (peer_ID \<lparr>peer_ID = ''peer1'', peer_Address = ''10.0.0.7:9000'',
                   peer_Version = ''1.0.0'', peer_LastSeen = 0\<rparr>)
       = Some (fresh (UpdatePeerReputation (fst example_state) (snd example_state)
                        ''peer1'' (Fin 0.8)))"
  by (rule AddPeer_replaces_entry[where old = 0]) (simp add: ex_t)

lemma peerScores_of_cong:
  "(\<And>pid. peerInfo_of t h1 pid = peerInfo_of t h2 pid) \<Longrightarrow> peerScores_of order t h1 = peerScores_of order t h2"
proof -
  assume a: "\<And>pid. peerInfo_of t h1 pid = peerInfo_of t h2 pid"
  have "(case peers t pid of Some info \<Rightarrow> [\<lparr>ps_id = pid, ps_score = bestPeerScore (cells h1 info)\<rparr>] | None \<Rightarrow> [])
      = (case peers t pid of Some info \<Rightarrow> [\<lparr>ps_id = pid, ps_score = bestPeerScore (cells h2 info)\<rparr>] | None \<Rightarrow> [])" for pid
    using a[of pid] by (cases "peers t pid") (auto simp: peerInfo_of_def)
  then show ?thesis by (simp add: peerScores_of_def)
qed

lemma GetBestPeers_cong:
  "(\<And>pid. peerInfo_of t h1 pid = peerInfo_of t h2 pid) \<Longrightarrow> GetBestPeers maxCap srt order t h1 n = GetBestPeers maxCap srt order t h2 n"
  using peerScores_of_cong[of t h1 h2 order] by (simp add: GetBestPeers_def)

text \<open>
  C10: for every peer id present in the manager, \<open>GetPeerInfo\<close> returns a copy of the
  stored record.  Whatever the caller then writes into the returned object (\<open>v\<close>),
  what the manager stores for every id is as before, and so are the result of
  \<open>GetBestPeers\<close>, the quality score of the peer and the content of a later
  \<open>GetPeerInfo\<close>.
\<close>

theorem GetPeerInfo_returns_copy:
  assumes known: "peers t peerID = Some a" and wf: "wf_store t h"
  shows "\<exists>r h'. GetPeerInfo t h peerID = (Some r, h') \<and> cells h' r = cells h a
           \<and> (\<forall>v. (\<forall>pid. peerInfo_of t (h'\<lparr>cells := (cells h')(r := v)\<rparr>) pid = peerInfo_of t h pid)
                 \<and> (\<forall>maxCap srt order n. GetBestPeers maxCap srt order t (h'\<lparr>cells := (cells h')(r := v)\<rparr>) n
                                     = GetBestPeers maxCap srt order t h n)
                 \<and> map_option (\<lambda>info. calculateQualityScore (Quality info))
                      (peerInfo_of t (h'\<lparr>cells := (cells h')(r := v)\<rparr>) peerID)
                    = Some (calculateQualityScore (Quality (cells h a)))
                 \<and> (\<exists>r2 h2. GetPeerInfo t (h'\<lparr>cells := (cells h')(r := v)\<rparr>) peerID = (Some r2, h2)
                       \<and> cells h2 r2 = cells h a))"
proof -
  define r where "r = fresh h"
  define h' where "h' = h\<lparr>cells := (cells h)(r := cells h a), fresh := Suc r\<rparr>"
  have g: "GetPeerInfo t h peerID = (Some r, h')"
    using known by (simp add: GetPeerInfo_def new_PeerInfo_def r_def h'_def)
  have c: "cells h' r = cells h a" by (simp add: h'_def)
  have ar: "a < r" using wf known by (auto simp: wf_store_def r_def)
  have view: "peerInfo_of t (h'\<lparr>cells := (cells h')(r := v)\<rparr>) pid = peerInfo_of t h pid" for v pid
  proof (cases "peers t pid")
    case None
    then show ?thesis by (simp add: peerInfo_of_def)
  next
    case (Some b)
    then have "b < r" using wf by (auto simp: wf_store_def r_def)
    then show ?thesis using Some by (simp add: peerInfo_of_def h'_def)
  qed
  have best: "GetBestPeers maxCap srt order t (h'\<lparr>cells := (cells h')(r := v)\<rparr>) n = GetBestPeers maxCap srt order t h n"
    for v maxCap srt order n
    by (rule GetBestPeers_cong) (rule view)
  have q: "map_option (\<lambda>info. calculateQualityScore (Quality info))
             (peerInfo_of t (h'\<lparr>cells := (cells h')(r := v)\<rparr>) peerID)
           = Some (calculateQualityScore (Quality (cells h a)))" for v
  proof -
    have "peerInfo_of t h peerID = Some (cells h a)" using known by (simp add: peerInfo_of_def)
    then show ?thesis by (simp add: view)
  qed
  have again: "\<exists>r2 h2. GetPeerInfo t (h'\<lparr>cells := (cells h')(r := v)\<rparr>) peerID = (Some r2, h2)
                 \<and> cells h2 r2 = cells h a" for v
  proof -
    have "a \<noteq> r" using ar by simp
    then show ?thesis using known by (simp add: GetPeerInfo_def new_PeerInfo_def h'_def)
  qed
  show ?thesis using g c view best q again by blast
qed

theorem GetPeerInfo_returns_copy_witness:
  "\<exists>r h'. GetPeerInfo (fst example_state) (snd example_state) ''peer1'' = (Some r, h')
      \<and> cells h' r = cells (snd example_state) 0
      \<and> (\<forall>v. (\<forall>pid. peerInfo_of (fst example_state) (h'\<lparr>cells := (cells h')(r := v)\<rparr>) pid
                       = peerInfo_of (fst example_state) (snd example_state) pid)
            \<and> (\<forall>maxCap srt order n. GetBestPeers maxCap srt order (fst example_state) (h'\<lparr>cells := (cells h')(r := v)\<rparr>) n
                                = GetBestPeers maxCap srt order (fst example_state) (snd example_state) n)
            \<and> map_option (\<lambda>info. calculateQualityScore (Quality info))
                 (peerInfo_of (fst example_state) (h'\<lparr>cells := (cells h')(r := v)\<rparr>) ''peer1'')
               = Some (calculateQualityScore (Quality (cells (snd example_state) 0)))
            \<and> (\<exists>r2 h2. GetPeerInfo (fst example_state) (h'\<lparr>cells := (cells h')(r := v)\<rparr>) ''peer1'' = (Some r2, h2)
                  \<and> cells h2 r2 = cells (snd example_state) 0))"
proof (rule GetPeerInfo_returns_copy)
  show "peers (fst example_state) ''peer1'' = Some 0" by (simp add: ex_t)
  show "wf_store (fst example_state) (snd example_state)" by (rule wf_example)
qed

section \<open>Reputation system\<close>

text \<open>
  The bounds check \<open>if x < -1.0 { x = -1.0 } else if x > 1.0 { x = 1.0 }\<close>, which the
  source writes out at each of its uses.
\<close>

definition clampUnit :: "float64 \<Rightarrow> float64" where
  "clampUnit x = (if flt x (Fin (- 1)) then Fin (- 1) else if fgt x (Fin 1) then Fin 1 else x)"

text \<open>
  The operations of \<open>ReputationSystem\<close>.  Each reads the current reputation through
  \<open>GetPeerInfo\<close> (which allocates the copy it returns) and stores the new one through
  \<open>Manager.UpdatePeerReputation\<close>; the peer map itself is not changed.
\<close>

definition UpdateReputationBasedOnBehavior :: "Manager \<Rightarrow> store \<Rightarrow> string \<Rightarrow> float64 \<Rightarrow> store" where
  "UpdateReputationBasedOnBehavior t h peerID behaviorScore =
     (let behaviorScore' = clampUnit behaviorScore
      in case GetPeerInfo t h peerID of
           (None, h') \<Rightarrow> h'
         | (Some currentInfo, h') \<Rightarrow>
             (let newReputation =
                    clampUnit (fadd (fmul (Reputation (cells h' currentInfo)) (Fin 0.7))
                                    (fmul behaviorScore' (Fin 0.3)))
              in UpdatePeerReputation t h' peerID newReputation))"

definition UpdateReputationBasedOnPerformance ::
  "Manager \<Rightarrow> store \<Rightarrow> string \<Rightarrow> float64 \<Rightarrow> Duration \<Rightarrow> store" where
  "UpdateReputationBasedOnPerformance t h peerID successRate responseTime =
     (let maxAcceptableTime = time_Second;
          performanceScore =
            (if responseTime < time_Millisecond * 100 then fmul successRate (Fin 1.2)
             else if responseTime > maxAcceptableTime then fmul successRate (Fin 0.8)
             else successRate);
          scaledScore = clampUnit (fsub (fmul performanceScore (Fin 2)) (Fin 1))
      in UpdateReputationBasedOnBehavior t h peerID scaledScore)"

definition UpdateReputationBasedOnReliability ::
  "Manager \<Rightarrow> store \<Rightarrow> string \<Rightarrow> float64 \<Rightarrow> float64 \<Rightarrow> store" where
  "UpdateReputationBasedOnReliability t h peerID uptimeRatio messageDeliveryRate =
     (let reliabilityScore = fadd (fmul uptimeRatio (Fin 0.6)) (fmul messageDeliveryRate (Fin 0.4));
          scaledScore = clampUnit (fsub (fmul reliabilityScore (Fin 2)) (Fin 1))
      in UpdateReputationBasedOnBehavior t h peerID scaledScore)"

definition DecayReputation :: "Manager \<Rightarrow> store \<Rightarrow> string \<Rightarrow> float64 \<Rightarrow> store" where
  "DecayReputation t h peerID decayRate =
     (case GetPeerInfo t h peerID of
        (None, h') \<Rightarrow> h'
      | (Some currentInfo, h') \<Rightarrow>
          (let newReputation =
                 clampUnit (fmul (Reputation (cells h' currentInfo)) (fsub (Fin 1) decayRate))
           in UpdatePeerReputation t h' peerID newReputation))"

text \<open>
  A reputation update is one call of \<open>Manager.UpdatePeerReputation\<close> or of one of the
  four operations of the reputation system; a sequence of them is applied in order.
\<close>

datatype reputation_update =
    SetReputation string float64
  | Behavior string float64
  | Performance string float64 Duration
  | Reliability string float64 float64
  | Decay string float64

fun apply_update :: "Manager \<Rightarrow> store \<Rightarrow> reputation_update \<Rightarrow> store" where
  "apply_update t h (SetReputation p r) = UpdatePeerReputation t h p r"
| "apply_update t h (Behavior p s) = UpdateReputationBasedOnBehavior t h p s"
| "apply_update t h (Performance p r d) = UpdateReputationBasedOnPerformance t h p r d"
| "apply_update t h (Reliability p u m) = UpdateReputationBasedOnReliability t h p u m"
| "apply_update t h (Decay p r) = DecayReputation t h p r"

definition apply_updates :: "Manager \<Rightarrow> store \<Rightarrow> reputation_update list \<Rightarrow> store" where
  "apply_updates t h us = foldl (apply_update t) h us"

definition reputation_in_bounds :: "float64 \<Rightarrow> bool" where
  "reputation_in_bounds r = (fle (Fin (- 1)) r \<and> fle r (Fin 1))"

definition reputations_bounded :: "Manager \<Rightarrow> store \<Rightarrow> bool" where
  "reputations_bounded t h =
     (\<forall>pid info. peerInfo_of t h pid = Some info \<longrightarrow> reputation_in_bounds (Reputation info))"

fun is_finite :: "float64 \<Rightarrow> bool" where
  "is_finite (Fin a) = True"
| "is_finite x = False"

fun admissible :: "reputation_update \<Rightarrow> bool" where
  "admissible (SetReputation p r) = reputation_in_bounds r"
| "admissible (Behavior p s) = (s \<noteq> NaN)"
| "admissible (Performance p r d) = (r \<noteq> NaN)"
| "admissible (Reliability p u m) = (fadd (fmul u (Fin 0.6)) (fmul m (Fin 0.4)) \<noteq> NaN)"
| "admissible (Decay p r) = is_finite r"

lemma clampUnit_bounds: "x \<noteq> NaN \<Longrightarrow> reputation_in_bounds (clampUnit x)"
  by (cases x) (auto simp: clampUnit_def reputation_in_bounds_def fgt_def fle_def)

lemma in_bounds_Fin: "reputation_in_bounds r \<Longrightarrow> \<exists>a. r = Fin a \<and> - 1 \<le> a \<and> a \<le> 1"
  by (cases r) (auto simp: reputation_in_bounds_def fle_def)

lemma clampUnit_not_NaN: "x \<noteq> NaN \<Longrightarrow> clampUnit x \<noteq> NaN"
  by (cases x) (auto simp: clampUnit_def fgt_def)

lemma bounded_UpdatePeerReputation:
  "reputations_bounded t h \<Longrightarrow> reputation_in_bounds r \<Longrightarrow> reputations_bounded t (UpdatePeerReputation t h p r)"
  by (auto simp: reputations_bounded_def UpdatePeerReputation_def peerInfo_of_def split: option.splits)

lemma bounded_GetPeerInfo:
  assumes "reputations_bounded t h" "GetPeerInfo t h p = (Some r, h')"
  shows "reputations_bounded t h' \<and> reputation_in_bounds (Reputation (cells h' r))"
proof -
  from assms(2) obtain a where a: "peers t p = Some a" "r = fresh h"
    "h' = h\<lparr>cells := (cells h)(fresh h := cells h a), fresh := Suc (fresh h)\<rparr>"
    by (auto simp: GetPeerInfo_def new_PeerInfo_def split: option.splits)
  have ra: "reputation_in_bounds (Reputation (cells h a))"
    using assms(1) a(1) by (auto simp: reputations_bounded_def peerInfo_of_def)
  have cell: "reputation_in_bounds (Reputation (cells h' b))" if "peers t q = Some b" for q b
  proof (cases "b = fresh h")
    case True
    then show ?thesis using ra by (simp add: a(3))
  next
    case False
    have "peerInfo_of t h q = Some (cells h b)" using that by (simp add: peerInfo_of_def)
    then have "reputation_in_bounds (Reputation (cells h b))"
      using assms(1) unfolding reputations_bounded_def by blast
    then show ?thesis using False by (simp add: a(3))
  qed
  have "reputations_bounded t h'"
    unfolding reputations_bounded_def peerInfo_of_def using cell by auto
  moreover have "reputation_in_bounds (Reputation (cells h' r))" using ra by (simp add: a)
  ultimately show ?thesis by simp
qed

lemma GetPeerInfo_None: "GetPeerInfo t h p = (None, h') \<Longrightarrow> h' = h"
  by (auto simp: GetPeerInfo_def new_PeerInfo_def split: option.splits)

lemma bounded_Behavior:
  assumes "reputations_bounded t h" "s \<noteq> NaN"
  shows "reputations_bounded t (UpdateReputationBasedOnBehavior t h p s)"
proof (cases "GetPeerInfo t h p")
  case (Pair ro h')
  show ?thesis
  proof (cases ro)
    case None
    with Pair have "h' = h" by (auto dest: GetPeerInfo_None)
    with Pair None assms show ?thesis
      by (simp add: UpdateReputationBasedOnBehavior_def)
  next
    case (Some r)
    from bounded_GetPeerInfo[OF assms(1)] Pair Some
    have b: "reputations_bounded t h'" "reputation_in_bounds (Reputation (cells h' r))" by auto
    obtain a where a: "Reputation (cells h' r) = Fin a" using in_bounds_Fin[OF b(2)] by blast
    obtain c where c: "clampUnit s = Fin c"
      using in_bounds_Fin[OF clampUnit_bounds[OF assms(2)]] by blast
    have "reputation_in_bounds (clampUnit (fadd (fmul (Reputation (cells h' r)) (Fin 0.7)) (fmul (clampUnit s) (Fin 0.3))))"
      by (rule clampUnit_bounds) (simp add: a c)
    then show ?thesis using Pair Some b(1)
      by (simp add: UpdateReputationBasedOnBehavior_def bounded_UpdatePeerReputation)
  qed
qed

lemma fsub_one_not_NaN: "x \<noteq> NaN \<Longrightarrow> fsub (fmul x (Fin 2)) (Fin 1) \<noteq> NaN"
  by (cases x) (auto simp: fsub_def inf_of_sign_def)

lemma fmul_pos_not_NaN: "x \<noteq> NaN \<Longrightarrow> 0 < c \<Longrightarrow> fmul x (Fin c) \<noteq> NaN"
  by (cases x) (auto simp: inf_of_sign_def)

lemma bounded_Performance:
  assumes "reputations_bounded t h" "r \<noteq> NaN"
  shows "reputations_bounded t (UpdateReputationBasedOnPerformance t h p r d)"
  unfolding UpdateReputationBasedOnPerformance_def Let_def
  by (intro bounded_Behavior assms clampUnit_not_NaN fsub_one_not_NaN)
     (simp add: fmul_pos_not_NaN assms)

lemma bounded_Reliability:
  assumes "reputations_bounded t h" "fadd (fmul u (Fin 0.6)) (fmul m (Fin 0.4)) \<noteq> NaN"
  shows "reputations_bounded t (UpdateReputationBasedOnReliability t h p u m)"
  unfolding UpdateReputationBasedOnReliability_def Let_def
  by (intro bounded_Behavior assms clampUnit_not_NaN fsub_one_not_NaN)

lemma bounded_Decay:
  assumes "reputations_bounded t h" "is_finite dr"
  shows "reputations_bounded t (DecayReputation t h p dr)"
proof (cases "GetPeerInfo t h p")
  case (Pair ro h')
  show ?thesis
  proof (cases ro)
    case None
    with Pair have "h' = h" by (auto dest: GetPeerInfo_None)
    with Pair None assms show ?thesis by (simp add: DecayReputation_def)
  next
    case (Some r)
    from bounded_GetPeerInfo[OF assms(1)] Pair Some
    have b: "reputations_bounded t h'" "reputation_in_bounds (Reputation (cells h' r))" by auto
    obtain a where a: "Reputation (cells h' r) = Fin a" using in_bounds_Fin[OF b(2)] by blast
    obtain c where c: "dr = Fin c" using assms(2) by (cases dr) auto
    have "reputation_in_bounds (clampUnit (fmul (Reputation (cells h' r)) (fsub (Fin 1) dr)))"
      by (rule clampUnit_bounds) (simp add: a c fsub_def)
    then show ?thesis using Pair Some b(1)
      by (simp add: DecayReputation_def bounded_UpdatePeerReputation)
  qed
qed

lemma bounded_apply_update:
  "reputations_bounded t h \<Longrightarrow> admissible u \<Longrightarrow> reputations_bounded t (apply_update t h u)"
  by (cases u)
    (simp_all add: bounded_UpdatePeerReputation bounded_Behavior bounded_Performance
      bounded_Reliability bounded_Decay)

lemma bounded_NewManager: "reputations_bounded (NewManager mp) h"
  by (simp add: reputations_bounded_def peerInfo_of_def NewManager_def)

lemma bounded_AddPeer:
  assumes "reputations_bounded t h" "AddPeer t h p now1 now2 = (t', h')"
  shows "reputations_bounded t' h'"
  unfolding reputations_bounded_def
proof (intro allI impI)
  fix pid info
  assume a: "peerInfo_of t' h' pid = Some info"
  from assms(2) have t': "t' = t\<lparr>peers := (peers t)(peer_ID p \<mapsto> fresh h)\<rparr>"
    and h': "Reputation (cells h' (fresh h)) = Fin 0"
      "\<And>b. b \<noteq> fresh h \<Longrightarrow> cells h' b = cells h b"
    by (auto simp: AddPeer_def new_PeerInfo_def Let_def)
  from a obtain b where b: "peers t' pid = Some b" "info = cells h' b"
    by (auto simp: peerInfo_of_def)
  show "reputation_in_bounds (Reputation info)"
  proof (cases "b = fresh h")
    case True
    then show ?thesis using b h'(1) by (simp add: reputation_in_bounds_def)
  next
    case False
    then have "peers t pid = Some b" using b(1) t' by (auto split: if_splits)
    then have "peerInfo_of t h pid = Some (cells h b)" by (simp add: peerInfo_of_def)
    then have "reputation_in_bounds (Reputation (cells h b))"
      using assms(1) unfolding reputations_bounded_def by blast
    then show ?thesis using False b(2) h'(2) by simp
  qed
qed

lemma bounded_example: "reputations_bounded (fst example_state) (snd example_state)"
  unfolding reputations_bounded_def
proof (intro allI impI)
  fix pid info
  assume a: "peerInfo_of (fst example_state) (snd example_state) pid = Some info"
  consider "pid = ''peer1''" | "pid = ''peer2''" | "pid \<noteq> ''peer1''" "pid \<noteq> ''peer2''" by blast
  then have "Reputation info = Fin 0"
  proof cases
    case 1
    with a ex_info1 show ?thesis by auto
  next
    case 2
    with a ex_info2 show ?thesis by auto
  next
    case 3
    with a ex_other show ?thesis by simp
  qed
  then show "reputation_in_bounds (Reputation info)" by (simp add: reputation_in_bounds_def)
qed

text \<open>
  What the code does guarantee.  Starting from stored reputations within \<open>[-1, 1]\<close>
  (as they are after \<open>AddPeer\<close>), every stored reputation stays within \<open>[-1, 1]\<close>
  under every sequence of admissible updates: behavior-based smoothing
  \<open>clamp(0.7*oldRep + 0.3*signal, -1, 1)\<close> with a signal that is not NaN,
  performance- and reliability-based updates whose score is not NaN, decay
  \<open>clamp(oldRep*(1-decayRate), -1, 1)\<close> with a finite decay rate, and the setter
  of the manager when its argument is itself within \<open>[-1, 1]\<close>.
\<close>

lemma reputation_stays_in_bounds:
  assumes "reputations_bounded t h" and "\<forall>u\<in>set us. admissible u"
  shows "reputations_bounded t (apply_updates t h us)"
  using assms unfolding apply_updates_def
proof (induction us arbitrary: h)
  case Nil
  then show ?case by simp
next
  case (Cons u us)
  then show ?case by (simp add: bounded_apply_update)
qed


lemma reputation_stays_in_bounds_example:
  "reputations_bounded (fst example_state)
     (apply_updates (fst example_state) (snd example_state)
        [Behavior ''peer1'' (Fin 1), Performance ''peer1'' (Fin 0.9) (50 * time_Millisecond),
         Reliability ''peer2'' (Fin 0.99) (Fin 0.95), Decay ''peer1'' (Fin 0.1),
         Behavior ''peer2'' NInf, SetReputation ''peer2'' (Fin 0.8)])"
  by (rule reputation_stays_in_bounds)
    (simp_all add: bounded_example reputation_in_bounds_def)

text \<open>
  C2: for every sequence of reputation updates applied to a peer, through any of the
  update operations including \<open>Manager.UpdatePeerReputation\<close>, the stored reputation
  stays within \<open>[-1, 1]\<close>.  The field is declared as \<open>Reputation float64 // -1.0 to 1.0
  scale\<close> and the operations of the reputation system keep it within these bounds, but
  \<open>Manager.UpdatePeerReputation\<close> assigns its argument without the bounds check:
  after \<open>UpdatePeerReputation("test-peer", 5.0)\<close> on a peer just added, whose
  reputation is \<open>0.0\<close>, the stored reputation is \<open>5.0\<close>.
\<close>

theorem UpdatePeerReputation_stores_out_of_range:
  "case AddPeer (NewManager 10) empty_store
          \<lparr>peer_ID = ''test-peer'', peer_Address = ''127.0.0.1:8080'', peer_Version = [],
           peer_LastSeen = 0\<rparr> 1 1 of (t, h) \<Rightarrow>
     map_option Reputation (peerInfo_of t h ''test-peer'') = Some (Fin 0)
     \<and> map_option Reputation
          (peerInfo_of t (apply_updates t h [SetReputation ''test-peer'' (Fin 5)]) ''test-peer'')
        = Some (Fin 5)
     \<and> \<not> reputation_in_bounds (Fin 5)"
  by (simp add: AddPeer_def NewManager_def new_PeerInfo_def empty_store_def Let_def
      apply_updates_def UpdatePeerReputation_def peerInfo_of_def reputation_in_bounds_def)


section \<open>Message protocol\<close>

text \<open>
  A Go \<open>error\<close> built by \<open>fmt.Errorf\<close> is its message; \<open>%w\<close> wraps another error, and
  the pool's capacity error carries the formatted limit
  (\<open>"connection pool at maximum capacity (%d)"\<close>).  \<open>nil\<close> is \<open>None\<close>.
\<close>

datatype error = Error string | Wrap string error | PoolAtMaximumCapacity int

text \<open>The envelope; the payload is an \<open>interface{}\<close>, here a type parameter.\<close>

record 'p Message =
  msg_Type :: string
  msg_ID :: string
  msg_Sender :: string
  msg_Timestamp :: Time
  msg_Payload :: 'p

definition Validate :: "'p Message \<Rightarrow> error option" where
  "Validate m =
     (if msg_Type m = [] then Some (Error ''message type cannot be empty'')
      else if msg_ID m = [] then Some (Error ''message ID cannot be empty'')
      else if msg_Sender m = [] then Some (Error ''message sender cannot be empty'')
      else None)"

text \<open>
  C7: \<open>Validate(m)\<close> fails if and only if at least one of the type, id and sender of
  \<open>m\<close> is the empty string; when all three are non-empty it returns success.
\<close>

theorem Validate_fails_iff:
  "(Validate m \<noteq> None) = (msg_Type m = [] \<or> msg_ID m = [] \<or> msg_Sender m = [])"
  by (simp add: Validate_def)

section \<open>Connection pool\<close>

text \<open>
  The pool's two maps are finite maps keyed by id; \<open>len\<close> of a map is the number of
  its keys.  The socket of a connection, the logger and the mutex are left out.  A
  \<open>*Connection\<close> argument may be \<open>nil\<close>.
\<close>

record Connection =
  conn_ID :: string
  conn_PeerID :: string
  conn_Address :: string
  conn_CreatedAt :: Time
  conn_LastSeen :: Time

record NetPeer =
  np_ID :: string
  np_Address :: string
  np_Version :: string
  np_LastSeen :: Time
  np_ConnectedAt :: Time
  np_Connection :: "Connection option"

record ConnectionPool =
  maxConnections :: int
  timeout :: Duration
  connections :: "(string, Connection) fmap"
  pool_peers :: "(string, NetPeer) fmap"

definition DefaultMaxConnections :: int where
  "DefaultMaxConnections = 50"

definition DefaultConnectionTimeout :: Duration where
  "DefaultConnectionTimeout = 30 * time_Second"

definition NewConnectionPool :: "int \<Rightarrow> Duration \<Rightarrow> ConnectionPool" where
  "NewConnectionPool maxc tmo =
     \<lparr>maxConnections = (if maxc \<le> 0 then DefaultMaxConnections else maxc),
      timeout = (if tmo \<le> 0 then DefaultConnectionTimeout else tmo),
      connections = fmempty, pool_peers = fmempty\<rparr>"

definition ConnectionCount :: "ConnectionPool \<Rightarrow> int" where
  "ConnectionCount cp = int (fcard (fmdom (connections cp)))"

definition AddConnection ::
  "ConnectionPool \<Rightarrow> Connection option \<Rightarrow> panic + (error option \<times> ConnectionPool)" where
  "AddConnection cp conn =
     (if ConnectionCount cp \<ge> maxConnections cp
      then Inr (Some (PoolAtMaximumCapacity (maxConnections cp)), cp)
      else case conn of
             None \<Rightarrow> Inl NilPointerDereference
           | Some c \<Rightarrow> Inr (None, cp\<lparr>connections := fmupd (conn_ID c) c (connections cp)\<rparr>))"

text \<open>A sample connection, named as \<open>handleConnection\<close> names them.\<close>

definition example_connection :: Connection where
  "example_connection =
     \<lparr>conn_ID = ''conn_10.0.0.2:4000_1'', conn_PeerID = [], conn_Address = ''10.0.0.2:4000'',
      conn_CreatedAt = 1, conn_LastSeen = 1\<rparr>"

lemma AddConnection_at_cap:
  "ConnectionCount cp \<ge> maxConnections cp \<Longrightarrow>
     AddConnection cp conn = Inr (Some (PoolAtMaximumCapacity (maxConnections cp)), cp)"
  by (simp add: AddConnection_def)




section \<open>Handshake verification\<close>

text \<open>
  The handshake timestamp is an \<open>int64\<close> of Unix seconds, and so is the clock reading
  \<open>time.Now().Unix()\<close>; their differences wrap around.  Decoding the public key,
  verifying the RSA-PSS signature and the JSON encoding of the signed fields are
  parameters: the code under study is the order of the checks and the time window.
  \<open>json.Marshal\<close> does not fail on a struct of a string, byte slices and an integer,
  so the branch for its error is not reachable and the parameter returns bytes.  A
  \<open>*HandshakeMessage\<close> argument may be \<open>nil\<close>.
\<close>

type_synonym bytes = "8 word list"
type_synonym int64 = "64 word"

record HandshakeMessage =
  NodeID :: string
  PublicKey :: bytes
  hs_Timestamp :: int64
  Signature :: bytes
  SessionKey :: bytes

record 'k crypto =
  UnmarshalPublicKey :: "bytes \<Rightarrow> error + 'k"
  VerifySignature :: "bytes \<Rightarrow> bytes \<Rightarrow> 'k \<Rightarrow> error option"
  json_Marshal :: "HandshakeMessage \<Rightarrow> bytes"

definition VerifyHandshakeMessage ::
  "'k crypto \<Rightarrow> int64 \<Rightarrow> HandshakeMessage option \<Rightarrow> error option" where
  "VerifyHandshakeMessage env currentTime msg =
     (case msg of
        None \<Rightarrow> Some (Error ''handshake message is nil'')
      | Some m \<Rightarrow>
          (case UnmarshalPublicKey env (PublicKey m) of
             Inl err \<Rightarrow> Some (Wrap ''failed to unmarshal public key'' err)
           | Inr pubKey \<Rightarrow>
               (let msgCopy = \<lparr>NodeID = NodeID m, PublicKey = PublicKey m,
                               hs_Timestamp = hs_Timestamp m, Signature = [],
                               SessionKey = SessionKey m\<rparr>;
                    msgBytes = json_Marshal env msgCopy
                in case VerifySignature env msgBytes (Signature m) pubKey of
                     Some err \<Rightarrow> Some (Wrap ''signature verification failed'' err)
                   | None \<Rightarrow>
                       if 300 < sint (currentTime - hs_Timestamp m)
                          \<or> 300 < sint (hs_Timestamp m - currentTime)
                       then Some (Error ''timestamp is too old or too far in the future'')
                       else None)))"

text \<open>
  A stand-in for the cryptography in which every key is well formed and every
  signature verifies, to run the time window on concrete instants.
\<close>

definition accepting_crypto :: "unit crypto" where
  "accepting_crypto =
     \<lparr>UnmarshalPublicKey = (\<lambda>pem. Inr ()), VerifySignature = (\<lambda>m s k. None),
      json_Marshal = (\<lambda>m. [])\<rparr>"

text \<open>
  Where the difference of the two instants fits an \<open>int64\<close>, a message with a
  well-formed key and a valid signature is accepted exactly when the instants are at
  most 300 seconds apart.
\<close>

lemma sint_sub_exact:
  fixes a b :: int64
  assumes "- (2 ^ 63) \<le> sint a - sint b" "sint a - sint b < 2 ^ 63"
  shows "sint (a - b) = sint a - sint b"
  using assms by (simp add: sint_word_ariths signed_take_bit_int_eq_self)

lemma VerifyHandshakeMessage_window:
  fixes currentTime :: int64
  assumes key: "UnmarshalPublicKey env (PublicKey m) = Inr k"
    and sig: "VerifySignature env (json_Marshal env (m\<lparr>Signature := []\<rparr>)) (Signature m) k = None"
    and d: "\<bar>sint currentTime - sint (hs_Timestamp m)\<bar> < 2 ^ 63"
  shows "(VerifyHandshakeMessage env currentTime (Some m) = None)
           = (\<bar>sint currentTime - sint (hs_Timestamp m)\<bar> \<le> 300)"
proof -
  have c: "\<lparr>NodeID = NodeID m, PublicKey = PublicKey m, hs_Timestamp = hs_Timestamp m,
            Signature = [], SessionKey = SessionKey m\<rparr> = m\<lparr>Signature := []\<rparr>"
    by simp
  have 1: "sint (currentTime - hs_Timestamp m) = sint currentTime - sint (hs_Timestamp m)"
    using d by (intro sint_sub_exact) auto
  have 2: "sint (hs_Timestamp m - currentTime) = sint (hs_Timestamp m) - sint currentTime"
    using d by (intro sint_sub_exact) auto
  show ?thesis
    unfolding VerifyHandshakeMessage_def using key sig 1 2 by (auto simp: c Let_def)
qed

text \<open>
  C4: \<open>VerifyHandshakeMessage\<close> fails whenever the current time and the timestamp
  are more than 300 seconds apart.  The code computes both differences in \<open>int64\<close>.
  For the timestamp \<open>now - 2^63\<close> the difference \<open>currentTime - msg.Timestamp\<close> wraps
  around to \<open>-2^63\<close> and \<open>msg.Timestamp - currentTime\<close> is \<open>-2^63\<close> as well, so neither
  exceeds 300 and the message is accepted, \<open>2^63\<close> seconds away from now.
\<close>

theorem VerifyHandshakeMessage_overflow_accepts:
  "sint (1800000000 :: int64) - sint (- 9223372035054775808 :: int64) = 2 ^ 63
  \<and> VerifyHandshakeMessage accepting_crypto 1800000000
       (Some \<lparr>NodeID = ''node-b'', PublicKey = [], hs_Timestamp = - 9223372035054775808,
              Signature = [], SessionKey = []\<rparr>) = None"
  by (simp add: VerifyHandshakeMessage_def accepting_crypto_def)

section \<open>Secure handshake\<close>

text \<open>
  \<open>performSecureHandshake\<close> talks to the remote node and changes the network's peer
  table, the pool and the topology manager.  What the socket delivers, the handshake
  message the node creates and the outcome of a send are the inputs \<open>handshake_io\<close>;
  the four clock readings of a registration (two in \<open>NewPeer\<close>, two in the
  manager's \<open>AddPeer\<close>) are \<open>clock\<close>.  The network state carries a
  trace of what has happened, in order: a message received, verified or rejected, a
  peer registered, a message sent.
\<close>

datatype event =
    EvReceived HandshakeMessage
  | EvVerified HandshakeMessage
  | EvRejected HandshakeMessage
  | EvRegistered string
  | EvSent HandshakeMessage

record Network =
  nodeID :: string
  net_peers :: "(string, NetPeer) fmap"
  pool :: ConnectionPool
  topologyMgr :: Manager
  objects :: store
  trace :: "event list"

record handshake_io =
  receiveHandshakeMessage :: "error + HandshakeMessage"
  CreateHandshakeMessage :: "error + HandshakeMessage"
  sendHandshakeMessage :: "HandshakeMessage \<Rightarrow> error option"

record clock =
  clk_ConnectedAt :: Time
  clk_LastSeen :: Time
  clk_PeerInfo_LastSeen :: Time
  clk_LastUpdate :: Time

definition emit :: "event \<Rightarrow> Network \<Rightarrow> Network" where
  "emit e n = n\<lparr>trace := trace n @ [e]\<rparr>"

definition NewPeer :: "string \<Rightarrow> string \<Rightarrow> string \<Rightarrow> Time \<Rightarrow> Time \<Rightarrow> NetPeer" where
  "NewPeer pid address version t1 t2 =
     \<lparr>np_ID = pid, np_Address = address, np_Version = version, np_LastSeen = t2,
      np_ConnectedAt = t1, np_Connection = None\<rparr>"

definition pool_AddPeer :: "ConnectionPool \<Rightarrow> NetPeer \<Rightarrow> ConnectionPool" where
  "pool_AddPeer cp peer = cp\<lparr>pool_peers := fmupd (np_ID peer) peer (pool_peers cp)\<rparr>"

definition registerPeer :: "Network \<Rightarrow> string \<Rightarrow> Connection \<Rightarrow> clock \<Rightarrow> Network" where
  "registerPeer n peerID connection clk =
     (let peer = (NewPeer peerID (conn_Address connection) ''1.0.0'' (clk_ConnectedAt clk) (clk_LastSeen clk))
                   \<lparr>np_Connection := Some connection\<rparr>;
          topologyPeer = \<lparr>peer_ID = np_ID peer, peer_Address = np_Address peer,
                          peer_Version = np_Version peer, peer_LastSeen = np_LastSeen peer\<rparr>;
          (t', h') = AddPeer (topologyMgr n) (objects n) topologyPeer (clk_PeerInfo_LastSeen clk) (clk_LastUpdate clk)
      in emit (EvRegistered peerID)
           (n\<lparr>net_peers := fmupd peerID peer (net_peers n),
              pool := pool_AddPeer (pool n) peer,
              topologyMgr := t', objects := h'\<rparr>))"

definition performSecureHandshake ::
  "'k crypto \<Rightarrow> int64 \<Rightarrow> handshake_io \<Rightarrow> clock \<Rightarrow> Network \<Rightarrow> bool \<Rightarrow> Connection
     \<Rightarrow> error option \<times> Network" where
  "performSecureHandshake env currentTime io clk n incoming connection =
     (if incoming then
        (case receiveHandshakeMessage io of
           Inl err \<Rightarrow> (Some (Wrap ''failed to receive handshake'' err), n)
         | Inr handshakeMsg \<Rightarrow>
             (let n1 = emit (EvReceived handshakeMsg) n
              in case VerifyHandshakeMessage env currentTime (Some handshakeMsg) of
                   Some err \<Rightarrow>
                     (Some (Wrap ''handshake verification failed'' err),
                      emit (EvRejected handshakeMsg) n1)
                 | None \<Rightarrow>
                     (let n2 = registerPeer (emit (EvVerified handshakeMsg) n1)
                                 (NodeID handshakeMsg) connection clk
                      in case CreateHandshakeMessage io of
                           Inl err \<Rightarrow>
                             (Some (Wrap ''failed to create response handshake'' err), n2)
                         | Inr responseMsg \<Rightarrow>
                             (case sendHandshakeMessage io responseMsg of
                                Some err \<Rightarrow>
                                  (Some (Wrap ''failed to send response handshake'' err), n2)
                              | None \<Rightarrow> (None, emit (EvSent responseMsg) n2)))))
      else
        (case CreateHandshakeMessage io of
           Inl err \<Rightarrow> (Some (Wrap ''failed to create handshake'' err), n)
         | Inr handshakeMsg \<Rightarrow>
             (case sendHandshakeMessage io handshakeMsg of
                Some err \<Rightarrow> (Some (Wrap ''failed to send handshake'' err), n)
              | None \<Rightarrow>
                  (let n1 = emit (EvSent handshakeMsg) n
                   in case receiveHandshakeMessage io of
                        Inl err \<Rightarrow> (Some (Wrap ''failed to receive response handshake'' err), n1)
                      | Inr responseMsg \<Rightarrow>
                          (let n2 = emit (EvReceived responseMsg) n1
                           in case VerifyHandshakeMessage env currentTime (Some responseMsg) of
                                Some err \<Rightarrow>
                                  (Some (Wrap ''response handshake verification failed'' err),
                                   emit (EvRejected responseMsg) n2)
                              | None \<Rightarrow>
                                  (None,
                                   registerPeer (emit (EvVerified responseMsg) n2)
                                     (NodeID responseMsg) connection clk))))))"

text \<open>\<open>precedes a b xs\<close>: an occurrence of \<open>a\<close> in \<open>xs\<close> is followed, later, by \<open>b\<close>.\<close>

fun precedes :: "'a \<Rightarrow> 'a \<Rightarrow> 'a list \<Rightarrow> bool" where
  "precedes a b [] = False"
| "precedes a b (x # xs) = ((x = a \<and> b \<in> set xs) \<or> precedes a b xs)"

text \<open>
  A peer id is registered when it is in the network's peer table, in the pool's peer
  table and in the topology manager: the three places \<open>registerPeer\<close> writes to.
\<close>

definition registered :: "Network \<Rightarrow> string \<Rightarrow> bool" where
  "registered n pid =
     (pid |\<in>| fmdom (net_peers n) \<and> pid |\<in>| fmdom (pool_peers (pool n))
      \<and> pid \<in> dom (peers (topologyMgr n)))"

lemma trace_emit [simp]: "trace (emit e n) = trace n @ [e]"
  by (simp add: emit_def)

lemma trace_registerPeer [simp]: "trace (registerPeer n pid c clk) = trace n @ [EvRegistered pid]"
  by (simp add: registerPeer_def Let_def split: prod.splits)

lemma registered_registerPeer [simp]: "registered (registerPeer n pid c clk) pid"
  by (simp add: registerPeer_def Let_def registered_def emit_def pool_AddPeer_def NewPeer_def
      AddPeer_def new_PeerInfo_def split: prod.splits)

lemma emit_fields [simp]:
  "net_peers (emit e n) = net_peers n" "pool (emit e n) = pool n"
  "topologyMgr (emit e n) = topologyMgr n" "objects (emit e n) = objects n"
  by (simp_all add: emit_def)

lemma registered_emit [simp]: "registered (emit e n) pid = registered n pid"
  by (simp add: registered_def)

text \<open>
  A sample run on the accepting side: node \<open>node-b\<close> dials \<open>node-a\<close>, whose state is
  empty, and its handshake verifies.
\<close>

definition example_hello :: HandshakeMessage where
  "example_hello =
     \<lparr>NodeID = ''node-b'', PublicKey = [1, 2, 3], hs_Timestamp = 1799999990,
      Signature = [4, 5], SessionKey = [6]\<rparr>"

definition example_reply :: HandshakeMessage where
  "example_reply =
     \<lparr>NodeID = ''node-a'', PublicKey = [7, 8, 9], hs_Timestamp = 1800000000,
      Signature = [10], SessionKey = [11]\<rparr>"

definition example_io :: handshake_io where
  "example_io =
     \<lparr>receiveHandshakeMessage = Inr example_hello, CreateHandshakeMessage = Inr example_reply,
      sendHandshakeMessage = (\<lambda>m. None)\<rparr>"

definition example_network :: Network where
  "example_network =
     \<lparr>nodeID = ''node-a'', net_peers = fmempty, pool = NewConnectionPool 10 0,
      topologyMgr = NewManager 10, objects = empty_store, trace = []\<rparr>"


lemma example_verifies: "VerifyHandshakeMessage accepting_crypto 1800000000 (Some example_hello) = None"
  by (simp add: VerifyHandshakeMessage_def accepting_crypto_def example_hello_def)

lemma example_trace:
  "trace (snd (performSecureHandshake accepting_crypto 1800000000 example_io
                 \<lparr>clk_ConnectedAt = 1, clk_LastSeen = 2, clk_PeerInfo_LastSeen = 3, clk_LastUpdate = 4\<rparr> example_network True example_connection))
   = [EvReceived example_hello, EvVerified example_hello, EvRegistered ''node-b'', EvSent example_reply]"
  by (simp add: performSecureHandshake_def example_io_def example_verifies Let_def)
     (simp add: example_network_def example_hello_def)

text \<open>
  C5: in \<open>performSecureHandshake\<close>, for both orientations, a peer is registered only
  after its handshake message verifies.  Of the events \<open>evs\<close> of one run: a peer is
  registered only under the node id of the message received, which verified, and the
  message was received, then verified, then the peer registered; on the accepting
  side the response is sent after the registration; on the dialing side our handshake
  is sent before the response is received; if the received message does not verify (or
  none is received) the run fails, registers no peer and leaves the peer table, the
  pool and the topology manager as they were; and a run that succeeds has registered
  the peer.
\<close>

theorem performSecureHandshake_order:
  assumes run: "performSecureHandshake env currentTime io clk n incoming connection = (res, n')"
  shows "\<exists>evs. trace n' = trace n @ evs
     \<and> (\<forall>pid. EvRegistered pid \<in> set evs \<longrightarrow>
           (\<exists>m. NodeID m = pid \<and> receiveHandshakeMessage io = Inr m
                \<and> VerifyHandshakeMessage env currentTime (Some m) = None
                \<and> precedes (EvReceived m) (EvVerified m) evs
                \<and> precedes (EvVerified m) (EvRegistered pid) evs))
     \<and> (incoming \<longrightarrow> (\<forall>r. EvSent r \<in> set evs \<longrightarrow> (\<exists>pid. precedes (EvRegistered pid) (EvSent r) evs)))
     \<and> (\<not> incoming \<longrightarrow> (\<forall>m. EvReceived m \<in> set evs \<longrightarrow> (\<exists>s. precedes (EvSent s) (EvReceived m) evs)))
     \<and> ((\<forall>m. receiveHandshakeMessage io = Inr m \<longrightarrow> VerifyHandshakeMessage env currentTime (Some m) \<noteq> None) \<longrightarrow>
            res \<noteq> None \<and> (\<forall>pid. EvRegistered pid \<notin> set evs)
            \<and> net_peers n' = net_peers n \<and> pool n' = pool n
            \<and> topologyMgr n' = topologyMgr n \<and> objects n' = objects n)
     \<and> (res = None \<longrightarrow>
           (\<exists>m. receiveHandshakeMessage io = Inr m \<and> EvRegistered (NodeID m) \<in> set evs
                \<and> registered n' (NodeID m)))"
proof (cases incoming)
  case True
  show ?thesis
    using run True
    by (auto simp: performSecureHandshake_def Let_def split: sum.splits option.splits)
next
  case False
  show ?thesis
    using run False
    by (auto simp: performSecureHandshake_def Let_def split: sum.splits option.splits)
qed

theorem performSecureHandshake_order_witness:
  "\<exists>m. NodeID m = ''node-b''
        \<and> VerifyHandshakeMessage accepting_crypto 1800000000 (Some m) = None
        \<and> precedes (EvReceived m) (EvVerified m)
             (trace (snd (performSecureHandshake accepting_crypto 1800000000 example_io
                 \<lparr>clk_ConnectedAt = 1, clk_LastSeen = 2, clk_PeerInfo_LastSeen = 3, clk_LastUpdate = 4\<rparr> example_network True example_connection)))
        \<and> precedes (EvVerified m) (EvRegistered ''node-b'')
             (trace (snd (performSecureHandshake accepting_crypto 1800000000 example_io
                 \<lparr>clk_ConnectedAt = 1, clk_LastSeen = 2, clk_PeerInfo_LastSeen = 3, clk_LastUpdate = 4\<rparr> example_network True example_connection)))"
proof -
  let ?run = "performSecureHandshake accepting_crypto 1800000000 example_io
                 \<lparr>clk_ConnectedAt = 1, clk_LastSeen = 2, clk_PeerInfo_LastSeen = 3, clk_LastUpdate = 4\<rparr> example_network True example_connection"
  have run: "?run = (fst ?run, snd ?run)" by simp
  from performSecureHandshake_order[OF run] obtain evs where
    e: "trace (snd ?run) = trace example_network @ evs" and
    r: "\<forall>pid. EvRegistered pid \<in> set evs \<longrightarrow>
           (\<exists>m. NodeID m = pid \<and> receiveHandshakeMessage example_io = Inr m
                \<and> VerifyHandshakeMessage accepting_crypto 1800000000 (Some m) = None
                \<and> precedes (EvReceived m) (EvVerified m) evs
                \<and> precedes (EvVerified m) (EvRegistered pid) evs)"
    by blast
  have evs: "evs = trace (snd ?run)" using e by (simp add: example_network_def)
  then have "EvRegistered ''node-b'' \<in> set evs" by (simp add: example_trace)
  with r evs show ?thesis by metis
qed


section \<open>Message serialization\<close>

text \<open>
  \<open>Serialize\<close> is \<open>json.Marshal(m)\<close> and \<open>DeserializeMessage\<close> is \<open>json.Unmarshal\<close>
  into a \<open>Message\<close>: what they do is what Go's \<open>encoding/json\<close> does for this struct.
  That library is modelled here from its documentation and source, as far as the
  envelope needs it.
\<close>

subsection \<open>UTF-8 (\<open>unicode/utf8\<close>)\<close>

text \<open>
  A Go string is a sequence of bytes.  \<open>DecodeRune\<close> returns the first code point of
  its argument and the number of bytes it takes, or \<open>(RuneError, 1)\<close> when the argument
  does not start with a valid UTF-8 sequence; \<open>first\<close> and \<open>acceptRanges\<close> are the
  library's tables (\<open>0xF0\<close> marks an ASCII byte, \<open>0xF1\<close> an invalid first byte; otherwise
  the low three bits are the length and the high four select the range of the second
  byte).
\<close>

definition byte :: "char \<Rightarrow> nat" where
  "byte c = of_char c"

definition RuneError :: nat where
  "RuneError = 0xFFFD"

definition first :: "nat \<Rightarrow> nat" where
  "first b =
     (if b < 0x80 then 0xF0
      else if b < 0xC2 then 0xF1
      else if b < 0xE0 then 0x02
      else if b = 0xE0 then 0x13
      else if b < 0xED then 0x03
      else if b = 0xED then 0x23
      else if b < 0xF0 then 0x03
      else if b = 0xF0 then 0x34
      else if b < 0xF4 then 0x04
      else if b = 0xF4 then 0x44
      else 0xF1)"

definition acceptRanges :: "nat \<Rightarrow> nat \<times> nat" where
  "acceptRanges i =
     (if i = 0 then (0x80, 0xBF)
      else if i = 1 then (0xA0, 0xBF)
      else if i = 2 then (0x80, 0x9F)
      else if i = 3 then (0x90, 0xBF)
      else if i = 4 then (0x80, 0x8F)
      else (0, 0))"

definition DecodeRune :: "string \<Rightarrow> nat \<times> nat" where
  "DecodeRune p =
     (let n = length p in
      if n < 1 then (RuneError, 0)
      else
        let p0 = byte (p ! 0); x = first p0 in
        if x \<ge> 0xF0 then (if x = 0xF0 then p0 else RuneError, 1)
        else
          let sz = x mod 8; (lo, hi) = acceptRanges (x div 16) in
          if n < sz then (RuneError, 1)
          else
            let b1 = byte (p ! 1) in
            if b1 < lo \<or> hi < b1 then (RuneError, 1)
            else if sz \<le> 2 then ((p0 mod 32) * 64 + b1 mod 64, 2)
            else
              let b2 = byte (p ! 2) in
              if b2 < 0x80 \<or> 0xBF < b2 then (RuneError, 1)
              else if sz \<le> 3 then ((p0 mod 16) * 4096 + (b1 mod 64) * 64 + b2 mod 64, 3)
              else
                let b3 = byte (p ! 3) in
                if b3 < 0x80 \<or> 0xBF < b3 then (RuneError, 1)
                else ((p0 mod 8) * 262144 + (b1 mod 64) * 4096 + (b2 mod 64) * 64 + b3 mod 64, 4))"

text \<open>\<open>utf8.Valid\<close>: the bytes are a sequence of valid UTF-8 encodings.\<close>

fun utf8_Valid :: "string \<Rightarrow> bool" where
  "utf8_Valid [] = True"
| "utf8_Valid (c # cs) =
     (let si = byte c in
      if si < 0x80 then utf8_Valid cs
      else
        let x = first si in
        if x = 0xF1 then False
        else
          let size = x mod 8 in
          if length (c # cs) < size then False
          else
            let (lo, hi) = acceptRanges (x div 16); c1 = byte (cs ! 0) in
            if c1 < lo \<or> hi < c1 then False
            else if size = 2 then utf8_Valid (drop 1 cs)
            else
              let c2 = byte (cs ! 1) in
              if c2 < 0x80 \<or> 0xBF < c2 then False
              else if size = 3 then utf8_Valid (drop 2 cs)
              else
                let c3 = byte (cs ! 2) in
                if c3 < 0x80 \<or> 0xBF < c3 then False
                else utf8_Valid (drop 3 cs))"

subsection \<open>JSON documents and strings\<close>

text \<open>
  The bytes that \<open>json.Marshal\<close> writes and \<open>json.Unmarshal\<close> reads are represented
  by the JSON document they spell: quoting, escapes and white space are not modelled,
  and bytes that are not a JSON document are not represented.  An object is the list
  of its members in the order written; a number is the value its literal denotes,
  an integer mantissa times a power of ten (\<open>JNumber m e\<close> is \<open>m * 10^e\<close>).
\<close>

datatype json =
    JNull
  | JBool bool
  | JNumber int int
  | JString string
  | JArray "json list"
  | JObject "(string \<times> json) list"

text \<open>
  A Go string is encoded as a JSON string "coerced to valid UTF-8": the encoder walks
  the bytes, keeps ASCII bytes and valid multi-byte sequences, and writes the
  replacement character \<open>U+FFFD\<close> (in UTF-8: \<open>EF BF BD\<close>) for every byte at which
  \<open>DecodeRune\<close> reports \<open>(RuneError, 1)\<close>.  The decoder treats the bytes of a JSON
  string in the same way.
\<close>

fun json_string_value :: "string \<Rightarrow> string" where
  "json_string_value [] = []"
| "json_string_value (c # cs) =
     (if byte c < 0x80 then c # json_string_value cs
      else
        let (r, size) = DecodeRune (take 4 (c # cs)) in
        if r = RuneError \<and> size = 1
        then [CHR 0xEF, CHR 0xBF, CHR 0xBD] @ json_string_value cs
        else take size (c # cs) @ json_string_value (drop (size - 1) cs))"

subsection \<open>The envelope\<close>

text \<open>
  The encodings of the two fields whose types are not strings are parameters:
  \<open>time.Time\<close> has its own \<open>MarshalJSON\<close> and \<open>UnmarshalJSON\<close> (RFC 3339; marshalling
  fails for a year outside \<open>[0, 9999]\<close>), and the payload is an \<open>interface{}\<close> whose
  dynamic type decides how, and whether, it can be encoded (a channel, a function or
  a NaN cannot).
\<close>

record 'p json_lib =
  Time_MarshalJSON :: "Time \<Rightarrow> error + json"
  Time_UnmarshalJSON :: "json \<Rightarrow> error + Time"
  Payload_Marshal :: "'p \<Rightarrow> error + json"

text \<open>
  \<open>json.Marshal\<close> writes the fields in their order in the struct, under the names of
  their tags, and returns the first error.
\<close>

definition Serialize :: "'p json_lib \<Rightarrow> 'p Message \<Rightarrow> error + json" where
  "Serialize lib m =
     (case Time_MarshalJSON lib (msg_Timestamp m) of
        Inl err \<Rightarrow> Inl (Wrap ''json: error calling MarshalJSON for type time.Time'' err)
      | Inr ts \<Rightarrow>
          (case Payload_Marshal lib (msg_Payload m) of
             Inl err \<Rightarrow> Inl err
           | Inr pl \<Rightarrow>
               Inr (JObject
                 [(''type'', JString (json_string_value (msg_Type m))),
                  (''id'', JString (json_string_value (msg_ID m))),
                  (''sender'', JString (json_string_value (msg_Sender m))),
                  (''timestamp'', ts),
                  (''payload'', pl)])))"

text \<open>
  \<open>json.Unmarshal\<close> into a \<open>Message\<close> starts from the zero message and takes the
  members of the object in order.  A key selects the field whose tag it equals up to
  the case of ASCII letters (the two non-ASCII letters that Unicode folds onto \<open>k\<close> and
  \<open>s\<close> are not modelled); other keys are skipped.  \<open>null\<close> leaves a string or time
  field as it is.  A value of the wrong kind for a string field is recorded as an
  error, reported at the end, and decoding goes on; an error of \<open>UnmarshalJSON\<close> stops
  it.

  The payload is an empty interface and receives the value of its document, whatever
  its kind; that value is represented by the document.  Every number in it is
  converted by \<open>strconv.ParseFloat(s, 64)\<close>, which fails for a number that rounds to
  an infinity, that is, for a magnitude of at least \<open>2^1024 - 2^970\<close>; such a failure
  is recorded like a value of the wrong kind (the first recorded error is the one
  reported).  Before any field is decoded the whole input is scanned, and the scan
  fails when arrays and objects are nested more than \<open>maxNestingDepth\<close> deep.
\<close>

definition number_value :: "int \<Rightarrow> int \<Rightarrow> real" where
  "number_value m e =
     (if 0 \<le> e then real_of_int m * 10 ^ nat e else real_of_int m / 10 ^ nat (- e))"

definition ParseFloat_ok :: "int \<Rightarrow> int \<Rightarrow> bool" where
  "ParseFloat_ok m e = (\<bar>number_value m e\<bar> < 2 ^ 1024 - 2 ^ 970)"

fun number_out_of_range :: "json \<Rightarrow> bool" where
  "number_out_of_range (JNumber m e) = (\<not> ParseFloat_ok m e)"
| "number_out_of_range (JArray xs) = (\<exists>x\<in>set xs. number_out_of_range x)"
| "number_out_of_range (JObject ms) = (\<exists>(k, v)\<in>set ms. number_out_of_range v)"
| "number_out_of_range v = False"

definition maxNestingDepth :: nat where
  "maxNestingDepth = 10000"

fun json_depth :: "json \<Rightarrow> nat" where
  "json_depth (JArray xs) = Suc (foldr max (map json_depth xs) 0)"
| "json_depth (JObject ms) = Suc (foldr max (map (\<lambda>(k, v). json_depth v) ms) 0)"
| "json_depth v = 0"

definition upper_ascii :: "char \<Rightarrow> char" where
  "upper_ascii c =
     (if 0x61 \<le> byte c \<and> byte c \<le> 0x7A
      then (case c of Char b0 b1 b2 b3 b4 b5 b6 b7 \<Rightarrow> Char b0 b1 b2 b3 b4 False b6 b7)
      else c)"

definition foldName :: "string \<Rightarrow> string" where
  "foldName s = map upper_ascii s"

definition zero_Message :: "json Message" where
  "zero_Message =
     \<lparr>msg_Type = [], msg_ID = [], msg_Sender = [], msg_Timestamp = 0, msg_Payload = JNull\<rparr>"

definition save_error :: "error \<Rightarrow> error option \<Rightarrow> error option" where
  "save_error e saved = (case saved of None \<Rightarrow> Some e | Some e' \<Rightarrow> Some e')"

definition decode_string ::
  "json \<Rightarrow> (string \<Rightarrow> json Message \<Rightarrow> json Message) \<Rightarrow> json Message \<times> error option
     \<Rightarrow> json Message \<times> error option" where
  "decode_string v upd st =
     (case v of
        JString s \<Rightarrow> (upd (json_string_value s) (fst st), snd st)
      | JNull \<Rightarrow> st
      | _ \<Rightarrow> (fst st,
               save_error
                 (Error ''json: cannot unmarshal value into Go struct field of type string'')
                 (snd st)))"

definition decode_interface ::
  "json \<Rightarrow> json Message \<times> error option \<Rightarrow> json Message \<times> error option" where
  "decode_interface v st =
     ((fst st)\<lparr>msg_Payload := v\<rparr>,
      (if number_out_of_range v
       then save_error (Error ''json: cannot unmarshal number into Go value of type float64'')
              (snd st)
       else snd st))"

fun decode_members ::
  "'p json_lib \<Rightarrow> (string \<times> json) list \<Rightarrow> json Message \<times> error option \<Rightarrow> error + json Message" where
  "decode_members lib [] st = (case snd st of None \<Rightarrow> Inr (fst st) | Some e \<Rightarrow> Inl e)"
| "decode_members lib ((key, v) # rest) st =
     (if foldName key = foldName ''type''
        then decode_members lib rest (decode_string v (\<lambda>s m. m\<lparr>msg_Type := s\<rparr>) st)
      else if foldName key = foldName ''id''
        then decode_members lib rest (decode_string v (\<lambda>s m. m\<lparr>msg_ID := s\<rparr>) st)
      else if foldName key = foldName ''sender''
        then decode_members lib rest (decode_string v (\<lambda>s m. m\<lparr>msg_Sender := s\<rparr>) st)
      else if foldName key = foldName ''timestamp''
        then (if v = JNull then decode_members lib rest st
              else case Time_UnmarshalJSON lib v of
                     Inl err \<Rightarrow> Inl err
                   | Inr t \<Rightarrow> decode_members lib rest ((fst st)\<lparr>msg_Timestamp := t\<rparr>, snd st))
      else if foldName key = foldName ''payload''
        then decode_members lib rest (decode_interface v st)
      else decode_members lib rest st)"

definition DeserializeMessage :: "'p json_lib \<Rightarrow> json \<Rightarrow> error + json Message" where
  "DeserializeMessage lib data =
     (if maxNestingDepth < json_depth data then Inl (Error ''exceeded max depth'')
      else case data of
             JObject members \<Rightarrow> decode_members lib members (zero_Message, None)
           | JNull \<Rightarrow> Inr zero_Message
           | _ \<Rightarrow> Inl (Error ''json: cannot unmarshal value into Go value of type p2p.Message''))"

lemma first_cases:
  assumes "\<not> b < 0x80" "first b \<noteq> 0xF1"
  shows "first b \<in> {0x02, 0x13, 0x03, 0x23, 0x34, 0x04, 0x44}"
  using assms unfolding first_def by (simp split: if_splits)

lemma nth_take4: "i < 4 \<Longrightarrow> i < length p \<Longrightarrow> take 4 p ! i = p ! i"
  by simp

lemma DecodeRune_valid2:
  assumes "first (byte c) mod 8 = 2" "first (byte c) < 0xF0" "1 \<le> length cs"
    "\<not> (byte (cs ! 0) < fst (acceptRanges (first (byte c) div 16))
        \<or> snd (acceptRanges (first (byte c) div 16)) < byte (cs ! 0))"
  shows "snd (DecodeRune (take 4 (c # cs))) = 2"
  using assms by (cases cs) (auto simp: DecodeRune_def Let_def split: prod.splits)

lemma DecodeRune_valid3:
  assumes "first (byte c) mod 8 = 3" "first (byte c) < 0xF0" "2 \<le> length cs"
    "\<not> (byte (cs ! 0) < fst (acceptRanges (first (byte c) div 16))
        \<or> snd (acceptRanges (first (byte c) div 16)) < byte (cs ! 0))"
    "\<not> (byte (cs ! 1) < 0x80 \<or> 0xBF < byte (cs ! 1))"
  shows "snd (DecodeRune (take 4 (c # cs))) = 3"
proof -
  obtain d1 d2 ds where cs: "cs = d1 # d2 # ds"
    using assms(3) by (cases cs; cases "tl cs") auto
  show ?thesis using assms unfolding cs
    by (auto simp: DecodeRune_def Let_def split: prod.splits)
qed

lemma DecodeRune_valid4:
  assumes "first (byte c) mod 8 = 4" "first (byte c) < 0xF0" "3 \<le> length cs"
    "\<not> (byte (cs ! 0) < fst (acceptRanges (first (byte c) div 16))
        \<or> snd (acceptRanges (first (byte c) div 16)) < byte (cs ! 0))"
    "\<not> (byte (cs ! 1) < 0x80 \<or> 0xBF < byte (cs ! 1))"
    "\<not> (byte (cs ! 2) < 0x80 \<or> 0xBF < byte (cs ! 2))"
  shows "snd (DecodeRune (take 4 (c # cs))) = 4"
proof -
  obtain d1 d2 d3 ds where cs: "cs = d1 # d2 # d3 # ds"
    using assms(3) by (cases cs; cases "tl cs"; cases "tl (tl cs)") auto
  show ?thesis using assms unfolding cs
    by (auto simp: DecodeRune_def Let_def split: prod.splits)
qed


lemma valid_step:
  assumes hi: "\<not> byte c < 0x80" and v: "utf8_Valid (c # cs)"
  shows "\<exists>size. 2 \<le> size \<and> size - 1 \<le> length cs
           \<and> snd (DecodeRune (take 4 (c # cs))) = size
           \<and> utf8_Valid (drop (size - 1) cs)"
proof -
  let ?x = "first (byte c)"
  have nx: "?x \<noteq> 0xF1" using v hi by (auto simp: Let_def)
  from first_cases[OF hi nx] have xs: "?x \<in> {0x02, 0x13, 0x03, 0x23, 0x34, 0x04, 0x44}" .
  then have lt: "?x < 0xF0" by auto
  from xs consider "?x mod 8 = 2" | "?x mod 8 = 3" | "?x mod 8 = 4" by auto
  then show ?thesis
  proof cases
    case 1
    from v hi nx 1 have a: "1 \<le> length cs"
      "\<not> (byte (cs ! 0) < fst (acceptRanges (?x div 16)) \<or> snd (acceptRanges (?x div 16)) < byte (cs ! 0))"
      "utf8_Valid (drop 1 cs)"
      by (auto simp: Let_def Suc_le_eq split: prod.splits if_splits)
    from DecodeRune_valid2[OF 1 lt a(1,2)] a show ?thesis by (intro exI[of _ 2]) simp
  next
    case 2
    from v hi nx 2 have a: "2 \<le> length cs"
      "\<not> (byte (cs ! 0) < fst (acceptRanges (?x div 16)) \<or> snd (acceptRanges (?x div 16)) < byte (cs ! 0))"
      "\<not> (byte (cs ! 1) < 0x80 \<or> 0xBF < byte (cs ! 1))"
      "utf8_Valid (drop 2 cs)"
      by (auto simp: Let_def Suc_le_eq split: prod.splits if_splits)
    from DecodeRune_valid3[OF 2 lt a(1,2,3)] a show ?thesis by (intro exI[of _ 3]) simp
  next
    case 3
    from v hi nx 3 have a: "3 \<le> length cs"
      "\<not> (byte (cs ! 0) < fst (acceptRanges (?x div 16)) \<or> snd (acceptRanges (?x div 16)) < byte (cs ! 0))"
      "\<not> (byte (cs ! 1) < 0x80 \<or> 0xBF < byte (cs ! 1))"
      "\<not> (byte (cs ! 2) < 0x80 \<or> 0xBF < byte (cs ! 2))"
      "utf8_Valid (drop 3 cs)"
      by (auto simp: Let_def Suc_le_eq split: prod.splits if_splits)
    from DecodeRune_valid4[OF 3 lt a(1,2,3,4)] a show ?thesis by (intro exI[of _ 4]) simp
  qed
qed

lemma json_string_value_valid: "utf8_Valid s \<Longrightarrow> json_string_value s = s"
proof (induction s rule: length_induct)
  case (1 s)
  show ?case
  proof (cases s)
    case Nil
    then show ?thesis by simp
  next
    case (Cons c cs)
    show ?thesis
    proof (cases "byte c < 0x80")
      case True
      then have "utf8_Valid cs" using "1.prems" Cons by (simp add: Let_def)
      then have "json_string_value cs = cs" using "1.IH" Cons by simp
      then show ?thesis using True Cons by simp
    next
      case False
      from valid_step[OF False] "1.prems" Cons obtain size where
        sz: "2 \<le> size" "size - 1 \<le> length cs"
          "snd (DecodeRune (take 4 (c # cs))) = size" "utf8_Valid (drop (size - 1) cs)"
        by blast
      have ih: "json_string_value (drop (size - 1) cs) = drop (size - 1) cs"
        using "1.IH" sz(4) Cons by simp
      have tk: "take size (c # cs) = c # take (size - 1) cs"
        using sz(1) by (cases size) auto
      obtain r where d: "DecodeRune (take 4 (c # cs)) = (r, size)"
        using sz(3) by (cases "DecodeRune (take 4 (c # cs))") auto
      have "json_string_value (c # cs) = take size (c # cs) @ json_string_value (drop (size - 1) cs)"
        using False d sz(1) by simp
      also have "\<dots> = c # cs" unfolding ih tk by simp
      finally show ?thesis using Cons by simp
    qed
  qed
qed

lemma foldName_tags [simp]:
  "foldName ''type'' = ''TYPE''" "foldName ''id'' = ''ID''" "foldName ''sender'' = ''SENDER''"
  "foldName ''timestamp'' = ''TIMESTAMP''" "foldName ''payload'' = ''PAYLOAD''"
  by (simp_all add: foldName_def upper_ascii_def byte_def)

lemma roundtrip_general:
  assumes ser: "Serialize lib m = Inr data"
    and tm: "\<And>j. Time_MarshalJSON lib (msg_Timestamp m) = Inr j \<Longrightarrow> j \<noteq> JNull
               \<Longrightarrow> \<exists>t. Time_UnmarshalJSON lib j = Inr t"
    and num: "\<And>pl. Payload_Marshal lib (msg_Payload m) = Inr pl \<Longrightarrow> \<not> number_out_of_range pl"
    and depth: "json_depth data \<le> maxNestingDepth"
  shows "\<exists>m'. DeserializeMessage lib data = Inr m'
           \<and> msg_Type m' = json_string_value (json_string_value (msg_Type m))
           \<and> msg_ID m' = json_string_value (json_string_value (msg_ID m))
           \<and> msg_Sender m' = json_string_value (json_string_value (msg_Sender m))"
proof -
  from ser obtain ts pl where ts: "Time_MarshalJSON lib (msg_Timestamp m) = Inr ts"
    and pl: "Payload_Marshal lib (msg_Payload m) = Inr pl"
    and data: "data = JObject
                 [(''type'', JString (json_string_value (msg_Type m))),
                  (''id'', JString (json_string_value (msg_ID m))),
                  (''sender'', JString (json_string_value (msg_Sender m))),
                  (''timestamp'', ts),
                  (''payload'', pl)]"
    by (auto simp: Serialize_def split: sum.splits)
  have nd: "\<not> maxNestingDepth < json_depth data" using depth by simp
  have des: "DeserializeMessage lib data =
               decode_members lib
                 [(''type'', JString (json_string_value (msg_Type m))),
                  (''id'', JString (json_string_value (msg_ID m))),
                  (''sender'', JString (json_string_value (msg_Sender m))),
                  (''timestamp'', ts),
                  (''payload'', pl)] (zero_Message, None)"
    unfolding DeserializeMessage_def using nd by (simp add: data)
  have np: "\<not> number_out_of_range pl" using num[OF pl] .
  show ?thesis
  proof (cases "ts = JNull")
    case True
    then show ?thesis unfolding des using np
      by (simp add: decode_string_def decode_interface_def zero_Message_def)
  next
    case False
    with tm[OF ts] obtain t where "Time_UnmarshalJSON lib ts = Inr t" by blast
    then show ?thesis unfolding des using False np
      by (simp add: decode_string_def decode_interface_def zero_Message_def)
  qed
qed

text \<open>
  A sample instance of the parameters: one instant with its RFC 3339 text, and
  payloads given by the document that encodes them.
\<close>

definition example_json_lib :: "json json_lib" where
  "example_json_lib =
     \<lparr>Time_MarshalJSON =
        (\<lambda>t. if t = 1700000000 then Inr (JString ''2023-11-14T22:13:20Z'')
             else Inl (Error ''Time.MarshalJSON: year outside of range [0,9999]'')),
      Time_UnmarshalJSON =
        (\<lambda>j. if j = JString ''2023-11-14T22:13:20Z'' then Inr 1700000000
             else Inl (Error ''parsing time'')),
      Payload_Marshal = (\<lambda>p. Inr p)\<rparr>"

text \<open>
  The decoder's failures on the payload are real: a payload that is the number
  \<open>1e310\<close> (a \<open>json.Number\<close>, which is written as it is) is serialized without error
  and is rejected when read back.
\<close>

lemma DeserializeMessage_number_out_of_range:
  "Serialize example_json_lib
     \<lparr>msg_Type = ''DATA_SYNC'', msg_ID = ''m-2'', msg_Sender = ''node-a'',
      msg_Timestamp = 1700000000, msg_Payload = JNumber 1 310\<rparr>
   = Inr (JObject [(''type'', JString ''DATA_SYNC''), (''id'', JString ''m-2''),
                  (''sender'', JString ''node-a''),
                  (''timestamp'', JString ''2023-11-14T22:13:20Z''),
                  (''payload'', JNumber 1 310)])
   \<and> DeserializeMessage example_json_lib
         (JObject [(''type'', JString ''DATA_SYNC''), (''id'', JString ''m-2''),
                   (''sender'', JString ''node-a''),
                   (''timestamp'', JString ''2023-11-14T22:13:20Z''),
                   (''payload'', JNumber 1 310)])
       = Inl (Error ''json: cannot unmarshal number into Go value of type float64'')"
  by (simp add: Serialize_def DeserializeMessage_def example_json_lib_def decode_string_def
      decode_interface_def save_error_def zero_Message_def maxNestingDepth_def
      ParseFloat_ok_def number_value_def byte_def)

text \<open>
  C8, as stated: for every valid message \<open>m\<close>, serializing \<open>m\<close> and then deserializing
  the result succeeds and yields a message with the type, id and sender of \<open>m\<close>.
  A Go string need not be valid UTF-8.  The message below is valid (its type, the one
  byte \<open>FF\<close>, is not empty); serialized, its type is the replacement character, and
  that is the type of the deserialized message.
\<close>

theorem Serialize_invalid_utf8_counterexample:
  "Validate \<lparr>msg_Type = [CHR 0xFF], msg_ID = ''m-1'', msg_Sender = ''node-a'',
             msg_Timestamp = 1700000000, msg_Payload = JNull\<rparr> = None
   \<and> Serialize example_json_lib
         \<lparr>msg_Type = [CHR 0xFF], msg_ID = ''m-1'', msg_Sender = ''node-a'',
          msg_Timestamp = 1700000000, msg_Payload = JNull\<rparr>
       = Inr (JObject [(''type'', JString [CHR 0xEF, CHR 0xBF, CHR 0xBD]),
                      (''id'', JString ''m-1''), (''sender'', JString ''node-a''),
                      (''timestamp'', JString ''2023-11-14T22:13:20Z''), (''payload'', JNull)])
   \<and> DeserializeMessage example_json_lib
         (JObject [(''type'', JString [CHR 0xEF, CHR 0xBF, CHR 0xBD]),
                   (''id'', JString ''m-1''), (''sender'', JString ''node-a''),
                   (''timestamp'', JString ''2023-11-14T22:13:20Z''), (''payload'', JNull)])
       = Inr \<lparr>msg_Type = [CHR 0xEF, CHR 0xBF, CHR 0xBD], msg_ID = ''m-1'',
              msg_Sender = ''node-a'', msg_Timestamp = 1700000000, msg_Payload = JNull\<rparr>
   \<and> [CHR 0xEF, CHR 0xBF, CHR 0xBD] \<noteq> [CHR 0xFF]"
  by (simp add: Validate_def Serialize_def DeserializeMessage_def example_json_lib_def
      decode_string_def decode_interface_def zero_Message_def maxNestingDepth_def
      DecodeRune_def first_def acceptRanges_def byte_def RuneError_def Let_def)

text \<open>
  C8, amended: for every message whose serialization succeeds (its timestamp and its
  payload can be encoded), whose serialized form can be read back apart from the
  strings (\<open>time.Time\<close> reads what it has written, no number of the encoded payload is
  outside the range of \<open>float64\<close>, and the document is not nested deeper than the
  decoder's limit), and whose type, id and sender are valid UTF-8, deserializing the
  serialized message succeeds and yields a message with the same type, id and sender.
\<close>

theorem Serialize_Deserialize_roundtrip:
  assumes ser: "Serialize lib m = Inr data"
    and tm: "\<And>j. Time_MarshalJSON lib (msg_Timestamp m) = Inr j \<Longrightarrow> j \<noteq> JNull
               \<Longrightarrow> \<exists>t. Time_UnmarshalJSON lib j = Inr t"
    and num: "\<And>pl. Payload_Marshal lib (msg_Payload m) = Inr pl \<Longrightarrow> \<not> number_out_of_range pl"
    and depth: "json_depth data \<le> maxNestingDepth"
    and valid: "utf8_Valid (msg_Type m)" "utf8_Valid (msg_ID m)" "utf8_Valid (msg_Sender m)"
  shows "\<exists>m'. DeserializeMessage lib data = Inr m'
           \<and> msg_Type m' = msg_Type m \<and> msg_ID m' = msg_ID m \<and> msg_Sender m' = msg_Sender m"
  using roundtrip_general[OF ser tm num depth] valid by (simp add: json_string_value_valid)

theorem Serialize_Deserialize_roundtrip_witness:
  "\<exists>m'. DeserializeMessage example_json_lib
           (JObject [(''type'', JString ''TEST''), (''id'', JString [CHR ''i'', CHR 0xC3, CHR 0xA9]),
                     (''sender'', JString ''sender-id''),
                     (''timestamp'', JString ''2023-11-14T22:13:20Z''),
                     (''payload'', JObject [(''key'', JString ''value''), (''n'', JNumber 15 (- 1))])])
         = Inr m'
       \<and> msg_Type m' = msg_Type \<lparr>msg_Type = ''TEST'', msg_ID = [CHR ''i'', CHR 0xC3, CHR 0xA9],
                  msg_Sender = ''sender-id'', msg_Timestamp = 1700000000,
                  msg_Payload = JObject [(''key'', JString ''value''), (''n'', JNumber 15 (- 1))]\<rparr>
       \<and> msg_ID m' = msg_ID \<lparr>msg_Type = ''TEST'', msg_ID = [CHR ''i'', CHR 0xC3, CHR 0xA9],
                  msg_Sender = ''sender-id'', msg_Timestamp = 1700000000,
                  msg_Payload = JObject [(''key'', JString ''value''), (''n'', JNumber 15 (- 1))]\<rparr>
       \<and> msg_Sender m' = msg_Sender \<lparr>msg_Type = ''TEST'', msg_ID = [CHR ''i'', CHR 0xC3, CHR 0xA9],
                  msg_Sender = ''sender-id'', msg_Timestamp = 1700000000,
                  msg_Payload = JObject [(''key'', JString ''value''), (''n'', JNumber 15 (- 1))]\<rparr>"
proof (rule Serialize_Deserialize_roundtrip)
  let ?m = "\<lparr>msg_Type = ''TEST'', msg_ID = [CHR ''i'', CHR 0xC3, CHR 0xA9],
             msg_Sender = ''sender-id'', msg_Timestamp = 1700000000,
             msg_Payload = JObject [(''key'', JString ''value''), (''n'', JNumber 15 (- 1))]\<rparr>"
  let ?d = "JObject [(''type'', JString ''TEST''), (''id'', JString [CHR ''i'', CHR 0xC3, CHR 0xA9]),
                     (''sender'', JString ''sender-id''),
                     (''timestamp'', JString ''2023-11-14T22:13:20Z''),
                     (''payload'', JObject [(''key'', JString ''value''), (''n'', JNumber 15 (- 1))])]"
  show "Serialize example_json_lib ?m = Inr ?d"
    by (simp add: Serialize_def example_json_lib_def DecodeRune_def first_def acceptRanges_def
        byte_def RuneError_def Let_def)
  show "\<exists>t. Time_UnmarshalJSON example_json_lib j = Inr t"
    if "Time_MarshalJSON example_json_lib (msg_Timestamp ?m) = Inr j" for j
    using that by (auto simp: example_json_lib_def)
  show "\<not> number_out_of_range pl"
    if "Payload_Marshal example_json_lib (msg_Payload ?m) = Inr pl" for pl
    using that by (auto simp: example_json_lib_def ParseFloat_ok_def number_value_def)
  show "json_depth ?d \<le> maxNestingDepth" by (simp add: maxNestingDepth_def)
  show "utf8_Valid (msg_Type ?m)" by (simp add: byte_def)
  show "utf8_Valid (msg_ID ?m)" by (simp add: byte_def first_def acceptRanges_def Let_def)
  show "utf8_Valid (msg_Sender ?m)" by (simp add: byte_def)
qed

end
